theory Spec2Isabelle
  imports Complex_Main "HOL-Library.Product_Lexorder"
begin

section \<open>Clinic records: the schema of backend/app/models.py\<close>

text \<open>
  The repository is a Django schema (models.py) and its admin configuration (admin.py).
  The model below embeds what models.py declares and computes: the derived age of a
  patient, the account manager's two creation functions, the validators attached to
  the vital-sign columns, the uniqueness constraints of two tables and the on-delete
  actions of the foreign keys. A table is the list of its rows in insertion order; a
  write either returns the new database or an error, as the exception would. The store
  is an SQLite database, the framework's default.
\<close>

subsection \<open>Dates and the derived age\<close>

text \<open>
  A \<^verbatim>\<open>datetime.date\<close> has the three integer attributes the code reads. Python
  compares the tuples \<^verbatim>\<open>(today.month, today.day) < (born.month, born.day)\<close>
  lexicographically, which is the order on pairs used here, and subtracts the resulting
  bool as 0 or 1. \<^verbatim>\<open>date.today()\<close> reads the clock; it is a parameter.
\<close>

record date =
  year :: int
  month :: int
  day :: int

definition int_of_bool :: "bool \<Rightarrow> int" where
  "int_of_bool b = (if b then 1 else 0)"

definition age :: "date \<Rightarrow> date \<Rightarrow> int" where
  "age today born =
     year today - year born - int_of_bool ((month today, day today) < (month born, day born))"

text \<open>The adjustment as the specification words it: today's (month, day) precedes the
  birth (month, day).\<close>

definition precedes :: "date \<Rightarrow> date \<Rightarrow> bool" where
  "precedes today born \<longleftrightarrow>
     month today < month born \<or> (month today = month born \<and> day today < day born)"

definition spec_age :: "date \<Rightarrow> date \<Rightarrow> int" where
  "spec_age today born =
     (if precedes today born then year today - year born - 1 else year today - year born)"

subsection \<open>Errors\<close>

text \<open>
  Every exception a write can raise is a value: \<^verbatim>\<open>ValueError\<close> is what
  \<^verbatim>\<open>create_user\<close> raises itself, \<^verbatim>\<open>IntegrityError\<close> is the store refusing a
  row (the argument names the constraint that refused it),
  \<^verbatim>\<open>ValidationError\<close> lists the codes of the validators that rejected a value, and
  \<^verbatim>\<open>OverflowError\<close> is an integer that does not fit the store's 64 bits.
\<close>

datatype error =
    ValueError string
  | IntegrityError string
  | ValidationError "string list"
  | OverflowError

subsection \<open>Floats\<close>

text \<open>
  A Python float is a number, one of the two infinities or NaN. A float that is a number
  is the real number it denotes (the limits 95.0 and 108.0 are floats exactly, and a
  comparison of floats is exact). Every comparison with NaN is false.
\<close>

datatype pyfloat = Float real | NaN | PosInf | NegInf

fun float_lt :: "pyfloat \<Rightarrow> pyfloat \<Rightarrow> bool" where
  "float_lt (Float a) (Float b) \<longleftrightarrow> a < b"
| "float_lt NaN _ \<longleftrightarrow> False"
| "float_lt _ NaN \<longleftrightarrow> False"
| "float_lt NegInf NegInf \<longleftrightarrow> False"
| "float_lt NegInf _ \<longleftrightarrow> True"
| "float_lt _ NegInf \<longleftrightarrow> False"
| "float_lt PosInf _ \<longleftrightarrow> False"
| "float_lt _ PosInf \<longleftrightarrow> True"

subsection \<open>Rows and tables\<close>

text \<open>
  Primary keys of the profile and clinical tables are UUIDs; only equality matters. A
  foreign key column holds the key of the row it refers to or NULL. Whether NULL may be
  stored is a constraint of the column (\<^verbatim>\<open>null=True\<close> or its absence), checked when
  a row is inserted. Timestamps are instants of a clock counted in natural numbers.
\<close>

datatype uuid = UUID nat

record time =
  hour :: nat
  minute :: nat
  second :: nat

record user =
  user_id :: nat
  email :: string
  password :: string
  first_name :: string
  last_name :: string
  user_type :: string
  phone_number :: string
  profile_picture :: "string option"
  is_staff :: bool
  is_superuser :: bool
  is_active :: bool
  created_at :: nat
  updated_at :: nat

record patient =
  pt_id :: uuid
  pt_user :: nat
  gender :: string
  date_of_birth :: date
  emergency_contact :: string
  insurance_type :: string

record doctor =
  dr_id :: uuid
  dr_user :: nat
  specialization :: string
  license_number :: string
  biography :: string
  years_of_experience :: int
  accepting_new_patients :: bool

record diagnosis_history =
  dh_id :: uuid
  dh_patient :: "uuid option"
  dh_doctor :: "uuid option"
  dh_month :: string
  dh_year :: int
  blood_pressure_systolic_value :: int
  blood_pressure_systolic_levels :: string
  blood_pressure_diastolic_value :: int
  blood_pressure_diastolic_levels :: string
  heart_rate_value :: int
  heart_rate_levels :: string
  respiratory_rate_value :: int
  respiratory_rate_levels :: string
  temperature_value :: pyfloat
  temperature_levels :: string
  dh_created_at :: nat
  dh_updated_at :: nat

record diagnostic_list =
  dl_id :: uuid
  dl_patient :: "uuid option"
  dl_doctor :: "uuid option"
  dl_name :: string
  dl_description :: string
  dl_status :: string
  diagnosed_date :: "date option"
  dl_created_at :: nat
  dl_updated_at :: nat

record lab_result =
  lr_id :: uuid
  lr_patient :: "uuid option"
  lr_doctor :: "uuid option"
  lr_name :: string
  result_value :: string
  result_unit :: string
  reference_range :: string
  lr_status :: string
  performed_date :: date
  reported_date :: "date option"
  lr_notes :: string
  lr_created_at :: nat
  lr_updated_at :: nat

record appointment =
  ap_id :: uuid
  ap_patient :: "uuid option"
  ap_doctor :: "uuid option"
  appointment_date :: date
  appointment_time :: time
  appointment_type :: string
  reason :: string
  ap_status :: string
  ap_notes :: string
  ap_created_at :: nat
  ap_updated_at :: nat

record db =
  users :: "user list"
  user_seq :: nat
  patients :: "patient list"
  doctors :: "doctor list"
  diagnosis_histories :: "diagnosis_history list"
  diagnostics :: "diagnostic_list list"
  lab_results :: "lab_result list"
  appointments :: "appointment list"

definition empty_db :: db where
  "empty_db = \<lparr>users = [], user_seq = 0, patients = [], doctors = [],
     diagnosis_histories = [], diagnostics = [], lab_results = [], appointments = []\<rparr>"

subsection \<open>Choice lists\<close>

definition LEVEL_CHOICES :: "string list" where
  "LEVEL_CHOICES = [''normal'', ''lower_than_average'', ''higher_than_average'',
     ''critical_low'', ''critical_high'']"

definition STATUS_CHOICES :: "string list" where
  "STATUS_CHOICES = [''scheduled'', ''completed'', ''cancelled'', ''no_show'', ''rescheduled'']"

subsection \<open>Uniqueness constraints and inserts\<close>

text \<open>
  \<^verbatim>\<open>models.UniqueConstraint(fields=[...], name=...)\<close> names the columns whose
  combination no two rows may share. Each constraint is the function that reads those
  columns off a row; a new row violates it when a stored row has the same value.
\<close>

definition unique_patient_diagnosis_history :: "diagnosis_history \<Rightarrow> uuid option \<times> string \<times> int" where
  "unique_patient_diagnosis_history r = (dh_patient r, dh_month r, dh_year r)"

definition unique_doctor_appointment_slot :: "appointment \<Rightarrow> uuid option \<times> date \<times> time" where
  "unique_doctor_appointment_slot r = (ap_doctor r, appointment_date r, appointment_time r)"

definition violates_unique :: "('r \<Rightarrow> 'k) \<Rightarrow> 'r list \<Rightarrow> 'r \<Rightarrow> bool" where
  "violates_unique key rows row \<longleftrightarrow> (\<exists>r \<in> set rows. key r = key row)"

text \<open>
  A foreign key column that is not NULL must hold the key of a stored row of the table
  it refers to.
\<close>

definition references :: "('r \<Rightarrow> uuid) \<Rightarrow> 'r list \<Rightarrow> uuid option \<Rightarrow> bool" where
  "references key rows fk \<longleftrightarrow> (case fk of None \<Rightarrow> True | Some k \<Rightarrow> k \<in> set (map key rows))"

text \<open>
  A \<^verbatim>\<open>PositiveIntegerField\<close> column carries the check \<open>>= 0\<close>, and an integer
  column of the store holds 64 bits.
\<close>

definition positive_integer_columns :: "diagnosis_history \<Rightarrow> int list" where
  "positive_integer_columns r =
     [dh_year r, blood_pressure_systolic_value r, blood_pressure_diastolic_value r,
      heart_rate_value r, respiratory_rate_value r]"

definition fits_integer :: "int \<Rightarrow> bool" where
  "fits_integer v \<longleftrightarrow> - (2 ^ 63) \<le> v \<and> v < 2 ^ 63"

text \<open>
  Saving a new instance is an INSERT (the primary key has a default, so no UPDATE is
  tried first); \<^verbatim>\<open>Model.save()\<close> runs no validator. \<^verbatim>\<open>auto_now_add\<close> and
  \<^verbatim>\<open>auto_now\<close> stamp the row with the current instant. An integer that does not
  fit the store is refused when the statement is built. The store then checks, in this
  order, the NOT NULL columns (it keeps a NaN as NULL), the \<open>>= 0\<close> checks, the
  table's uniqueness constraint, the primary key and, when the statement ends, the
  foreign keys.
\<close>

definition insert_diagnosis_history :: "nat \<Rightarrow> db \<Rightarrow> diagnosis_history \<Rightarrow> error + db" where
  "insert_diagnosis_history now d r =
     (if \<not> list_all fits_integer (positive_integer_columns r) then Inl OverflowError
      else if dh_patient r = None then Inl (IntegrityError ''patient_id'')
      else if temperature_value r = NaN then Inl (IntegrityError ''temperature_value'')
      else if \<not> list_all (\<lambda>v. 0 \<le> v) (positive_integer_columns r) then Inl (IntegrityError ''CHECK'')
      else if violates_unique unique_patient_diagnosis_history (diagnosis_histories d) r
        then Inl (IntegrityError ''unique_patient_diagnosis_history'')
      else if violates_unique dh_id (diagnosis_histories d) r then Inl (IntegrityError ''id'')
      else if \<not> (references pt_id (patients d) (dh_patient r)
                 \<and> references dr_id (doctors d) (dh_doctor r))
        then Inl (IntegrityError ''FOREIGN KEY'')
      else Inr (d\<lparr>diagnosis_histories :=
                   diagnosis_histories d @ [r\<lparr>dh_created_at := now, dh_updated_at := now\<rparr>]\<rparr>))"

definition insert_appointment :: "nat \<Rightarrow> db \<Rightarrow> appointment \<Rightarrow> error + db" where
  "insert_appointment now d r =
     (if ap_patient r = None then Inl (IntegrityError ''patient_id'')
      else if ap_doctor r = None then Inl (IntegrityError ''doctor_id'')
      else if violates_unique unique_doctor_appointment_slot (appointments d) r
        then Inl (IntegrityError ''unique_doctor_appointment_slot'')
      else if violates_unique ap_id (appointments d) r then Inl (IntegrityError ''id'')
      else if \<not> (references pt_id (patients d) (ap_patient r)
                 \<and> references dr_id (doctors d) (ap_doctor r))
        then Inl (IntegrityError ''FOREIGN KEY'')
      else Inr (d\<lparr>appointments :=
                   appointments d @ [r\<lparr>ap_created_at := now, ap_updated_at := now\<rparr>]\<rparr>))"

subsection \<open>Deleting a doctor or a patient\<close>

text \<open>
  Each foreign key declares what happens to the referring rows when the row it refers
  to is deleted: \<^verbatim>\<open>CASCADE\<close> deletes them, \<^verbatim>\<open>SET_NULL\<close> keeps them and stores NULL
  in the column. SET_NULL is a bulk update of that one column: it does not pass through
  save(), so \<^verbatim>\<open>auto_now\<close> does not touch the row's timestamp.
\<close>

datatype on_delete = CASCADE | SET_NULL

fun apply_on_delete ::
  "on_delete \<Rightarrow> ('r \<Rightarrow> uuid option) \<Rightarrow> ('r \<Rightarrow> 'r) \<Rightarrow> uuid \<Rightarrow> 'r list \<Rightarrow> 'r list" where
  "apply_on_delete CASCADE fk set_null k rows = filter (\<lambda>r. fk r \<noteq> Some k) rows"
| "apply_on_delete SET_NULL fk set_null k rows =
     map (\<lambda>r. if fk r = Some k then set_null r else r) rows"

definition diagnosis_history_patient_on_delete :: on_delete where
  "diagnosis_history_patient_on_delete = CASCADE"

definition diagnosis_history_doctor_on_delete :: on_delete where
  "diagnosis_history_doctor_on_delete = SET_NULL"

definition diagnostic_list_patient_on_delete :: on_delete where
  "diagnostic_list_patient_on_delete = CASCADE"

definition diagnostic_list_doctor_on_delete :: on_delete where
  "diagnostic_list_doctor_on_delete = SET_NULL"

definition lab_result_patient_on_delete :: on_delete where
  "lab_result_patient_on_delete = CASCADE"

definition lab_result_doctor_on_delete :: on_delete where
  "lab_result_doctor_on_delete = SET_NULL"

definition appointment_patient_on_delete :: on_delete where
  "appointment_patient_on_delete = CASCADE"

definition appointment_doctor_on_delete :: on_delete where
  "appointment_doctor_on_delete = CASCADE"

definition delete_doctor :: "db \<Rightarrow> uuid \<Rightarrow> db" where
  "delete_doctor d k = d\<lparr>
     doctors := filter (\<lambda>r. dr_id r \<noteq> k) (doctors d),
     diagnosis_histories :=
       apply_on_delete diagnosis_history_doctor_on_delete dh_doctor
         (\<lambda>r. r\<lparr>dh_doctor := None\<rparr>) k (diagnosis_histories d),
     diagnostics :=
       apply_on_delete diagnostic_list_doctor_on_delete dl_doctor
         (\<lambda>r. r\<lparr>dl_doctor := None\<rparr>) k (diagnostics d),
     lab_results :=
       apply_on_delete lab_result_doctor_on_delete lr_doctor
         (\<lambda>r. r\<lparr>lr_doctor := None\<rparr>) k (lab_results d),
     appointments :=
       apply_on_delete appointment_doctor_on_delete ap_doctor
         (\<lambda>r. r\<lparr>ap_doctor := None\<rparr>) k (appointments d)\<rparr>"

definition delete_patient :: "db \<Rightarrow> uuid \<Rightarrow> db" where
  "delete_patient d k = d\<lparr>
     patients := filter (\<lambda>r. pt_id r \<noteq> k) (patients d),
     diagnosis_histories :=
       apply_on_delete diagnosis_history_patient_on_delete dh_patient
         (\<lambda>r. r\<lparr>dh_patient := None\<rparr>) k (diagnosis_histories d),
     diagnostics :=
       apply_on_delete diagnostic_list_patient_on_delete dl_patient
         (\<lambda>r. r\<lparr>dl_patient := None\<rparr>) k (diagnostics d),
     lab_results :=
       apply_on_delete lab_result_patient_on_delete lr_patient
         (\<lambda>r. r\<lparr>lr_patient := None\<rparr>) k (lab_results d),
     appointments :=
       apply_on_delete appointment_patient_on_delete ap_patient
         (\<lambda>r. r\<lparr>ap_patient := None\<rparr>) k (appointments d)\<rparr>"

subsection \<open>Validators of the diagnosis-history columns\<close>

text \<open>
  \<^verbatim>\<open>MinValueValidator(limit)\<close> rejects a value with \<^verbatim>\<open>value < limit\<close> and
  \<^verbatim>\<open>MaxValueValidator(limit)\<close> one with \<^verbatim>\<open>value > limit\<close>, under the code
  \<^verbatim>\<open>min_value\<close> or \<^verbatim>\<open>max_value\<close>. The comparison is that of the value's type:
  \<open><\<close> on Python ints, \<open>float_lt\<close> on floats. Validating a field
  (\<^verbatim>\<open>Field.clean\<close>) runs all its validators and raises a
  \<^verbatim>\<open>ValidationError\<close> with the codes of those that rejected the value, or returns
  the value when none did. The declared validators are all a column has: the framework
  adds the range of the store's integer type only where no declared validator is at
  least as tight.
\<close>

datatype 'a validator = MinValueValidator 'a | MaxValueValidator 'a

fun rejects :: "('a \<Rightarrow> 'a \<Rightarrow> bool) \<Rightarrow> 'a validator \<Rightarrow> 'a \<Rightarrow> bool" where
  "rejects lt (MinValueValidator limit) v \<longleftrightarrow> lt v limit"
| "rejects lt (MaxValueValidator limit) v \<longleftrightarrow> lt limit v"

fun code :: "'a validator \<Rightarrow> string" where
  "code (MinValueValidator limit) = ''min_value''"
| "code (MaxValueValidator limit) = ''max_value''"

definition run_validators :: "('a \<Rightarrow> 'a \<Rightarrow> bool) \<Rightarrow> 'a validator list \<Rightarrow> 'a \<Rightarrow> string list" where
  "run_validators lt vs v = map code (filter (\<lambda>x. rejects lt x v) vs)"

definition clean :: "('a \<Rightarrow> 'a \<Rightarrow> bool) \<Rightarrow> 'a validator list \<Rightarrow> 'a \<Rightarrow> error + 'a" where
  "clean lt vs v =
     (case run_validators lt vs v of
        [] \<Rightarrow> Inr v
      | e # es \<Rightarrow> Inl (ValidationError (e # es)))"

definition year_validators :: "int validator list" where
  "year_validators = [MinValueValidator 1900, MaxValueValidator 2100]"

definition blood_pressure_systolic_value_validators :: "int validator list" where
  "blood_pressure_systolic_value_validators = [MinValueValidator 50, MaxValueValidator 250]"

definition blood_pressure_diastolic_value_validators :: "int validator list" where
  "blood_pressure_diastolic_value_validators = [MinValueValidator 30, MaxValueValidator 150]"

definition heart_rate_value_validators :: "int validator list" where
  "heart_rate_value_validators = [MinValueValidator 30, MaxValueValidator 220]"

definition respiratory_rate_value_validators :: "int validator list" where
  "respiratory_rate_value_validators = [MinValueValidator 5, MaxValueValidator 60]"

definition temperature_value_validators :: "pyfloat validator list" where
  "temperature_value_validators = [MinValueValidator (Float 95.0), MaxValueValidator (Float 108.0)]"

subsection \<open>Account creation\<close>

text \<open>
  \<^verbatim>\<open>**extra_fields\<close> is the dictionary of the keyword arguments the caller passes
  on: a key is absent (\<open>None\<close>) or present with its value. The keys are the columns of
  the user table other than the email and the password, each with a value of the
  column's type. \<^verbatim>\<open>setdefault\<close> stores a value under a key only when the key is
  absent.
\<close>

record extra_fields =
  ef_first_name :: "string option"
  ef_last_name :: "string option"
  ef_user_type :: "string option"
  ef_phone_number :: "string option"
  ef_profile_picture :: "string option option"
  ef_is_staff :: "bool option"
  ef_is_superuser :: "bool option"
  ef_is_active :: "bool option"

definition no_extra_fields :: extra_fields where
  "no_extra_fields = \<lparr>ef_first_name = None, ef_last_name = None, ef_user_type = None,
     ef_phone_number = None, ef_profile_picture = None, ef_is_staff = None,
     ef_is_superuser = None, ef_is_active = None\<rparr>"

definition setdefault :: "'a option \<Rightarrow> 'a \<Rightarrow> 'a option" where
  "setdefault cur v = (case cur of None \<Rightarrow> Some v | Some x \<Rightarrow> Some x)"

definition get_or :: "'a option \<Rightarrow> 'a \<Rightarrow> 'a" where
  "get_or cur v = (case cur of None \<Rightarrow> v | Some x \<Rightarrow> x)"

text \<open>
  \<^verbatim>\<open>self.model(email=email, **extra_fields)\<close>: a column the caller does not name
  takes its default (the empty string for a text column, NULL for the picture, false for
  \<^verbatim>\<open>is_staff\<close> and \<^verbatim>\<open>is_superuser\<close>, true for \<^verbatim>\<open>is_active\<close>). The instance has
  no key, password or timestamps yet.
\<close>

definition model :: "string \<Rightarrow> extra_fields \<Rightarrow> user" where
  "model e extra = \<lparr>user_id = 0, email = e, password = [],
     first_name = get_or (ef_first_name extra) [],
     last_name = get_or (ef_last_name extra) [],
     user_type = get_or (ef_user_type extra) [],
     phone_number = get_or (ef_phone_number extra) [],
     profile_picture = get_or (ef_profile_picture extra) None,
     is_staff = get_or (ef_is_staff extra) False,
     is_superuser = get_or (ef_is_superuser extra) False,
     is_active = get_or (ef_is_active extra) True,
     created_at = 0, updated_at = 0\<rparr>"

text \<open>
  \<^verbatim>\<open>user.save()\<close> inserts the row: \<^verbatim>\<open>unique=True\<close> on the email column
  makes the store refuse an email that a stored account has; otherwise the row gets the
  next key of the sequence and its timestamps. The result is the outcome of the call
  together with the database after it.
\<close>

definition save_user :: "nat \<Rightarrow> db \<Rightarrow> user \<Rightarrow> (error + user) \<times> db" where
  "save_user now d u =
     (if violates_unique email (users d) u then (Inl (IntegrityError ''email''), d)
      else let u' = u\<lparr>user_id := Suc (user_seq d), created_at := now, updated_at := now\<rparr>
           in (Inr u', d\<lparr>users := users d @ [u'], user_seq := Suc (user_seq d)\<rparr>))"

text \<open>
  The manager. \<^verbatim>\<open>normalize_email\<close> and the password hasher behind
  \<^verbatim>\<open>set_password\<close> belong to the framework, not to this repository: they are
  parameters. The email and the password may be \<^verbatim>\<open>None\<close>; \<^verbatim>\<open>not email\<close> holds
  for \<^verbatim>\<open>None\<close> and for the empty string.
\<close>

definition create_user ::
  "(string \<Rightarrow> string) \<Rightarrow> (string option \<Rightarrow> string) \<Rightarrow> nat \<Rightarrow> db
     \<Rightarrow> string option \<Rightarrow> string option \<Rightarrow> extra_fields \<Rightarrow> (error + user) \<times> db" where
  "create_user normalize_email make_password now d e pw extra =
     (case e of
        None \<Rightarrow> (Inl (ValueError ''Users must have an email address''), d)
      | Some e0 \<Rightarrow>
          if e0 = [] then (Inl (ValueError ''Users must have an email address''), d)
          else let e1 = normalize_email e0;
                   u = model e1 extra;
                   u = u\<lparr>password := make_password pw\<rparr>
               in save_user now d u)"

definition create_superuser ::
  "(string \<Rightarrow> string) \<Rightarrow> (string option \<Rightarrow> string) \<Rightarrow> nat \<Rightarrow> db
     \<Rightarrow> string option \<Rightarrow> string option \<Rightarrow> extra_fields \<Rightarrow> (error + user) \<times> db" where
  "create_superuser normalize_email make_password now d e pw extra =
     (let extra = extra\<lparr>ef_is_staff := setdefault (ef_is_staff extra) True\<rparr>;
          extra = extra\<lparr>ef_is_superuser := setdefault (ef_is_superuser extra) True\<rparr>;
          extra = extra\<lparr>ef_is_active := setdefault (ef_is_active extra) True\<rparr>;
          extra = extra\<lparr>ef_user_type := setdefault (ef_user_type extra) ''admin''\<rparr>
      in create_user normalize_email make_password now d e pw extra)"

text \<open>
  A normalizer and a hasher to run the manager on concrete inputs. The normalizer does
  what the framework's does: it strips the surrounding ASCII white space and lowers the case of
  the part after the last \<open>@\<close>, and leaves an address without \<open>@\<close> as it is. The
  hasher is a stand-in that never returns its argument.
\<close>

definition lower_char :: "char \<Rightarrow> char" where
  "lower_char c =
     (case map_of (zip ''ABCDEFGHIJKLMNOPQRSTUVWXYZ'' ''abcdefghijklmnopqrstuvwxyz'') c of
        None \<Rightarrow> c
      | Some l \<Rightarrow> l)"

definition whitespace :: "char list" where
  "whitespace = [CHR 0x09, CHR 0x0A, CHR 0x0B, CHR 0x0C, CHR 0x0D, CHR 0x1C, CHR 0x1D,
     CHR 0x1E, CHR 0x1F, CHR 0x20]"

definition strip :: "string \<Rightarrow> string" where
  "strip s = rev (dropWhile (\<lambda>c. c \<in> set whitespace)
                (rev (dropWhile (\<lambda>c. c \<in> set whitespace) s)))"

definition lower_domain :: "string \<Rightarrow> string" where
  "lower_domain s =
     (if CHR ''@'' \<in> set s then
        (let t = strip s; dom = rev (takeWhile (\<lambda>c. c \<noteq> CHR ''@'') (rev t))
         in take (length t - length dom) t @ map lower_char dom)
      else s)"

definition toy_hash :: "string option \<Rightarrow> string" where
  "toy_hash pw = (case pw of None \<Rightarrow> ''!'' | Some p \<Rightarrow> ''hash$'' @ p)"

subsection \<open>Example rows and table invariants\<close>

definition example_patient :: "nat \<Rightarrow> patient" where
  "example_patient p = \<lparr>pt_id = UUID p, pt_user = p, gender = ''F'',
     date_of_birth = \<lparr>year = 2000, month = 6, day = 15\<rparr>, emergency_contact = [],
     insurance_type = ''private''\<rparr>"

definition example_doctor :: "nat \<Rightarrow> doctor" where
  "example_doctor k = \<lparr>dr_id = UUID k, dr_user = k, specialization = ''cardiologist'',
     license_number = ''L'', biography = [], years_of_experience = 10,
     accepting_new_patients = True\<rparr>"

definition clinic_db :: db where
  "clinic_db = empty_db\<lparr>patients := [example_patient 10],
     doctors := [example_doctor 20, example_doctor 21]\<rparr>"

definition example_appointment :: "nat \<Rightarrow> nat \<Rightarrow> nat \<Rightarrow> string \<Rightarrow> appointment" where
  "example_appointment i p k st =
     \<lparr>ap_id = UUID i, ap_patient = Some (UUID p), ap_doctor = Some (UUID k),
      appointment_date = \<lparr>year = 2024, month = 6, day = 14\<rparr>,
      appointment_time = \<lparr>hour = 9, minute = 30, second = 0\<rparr>,
      appointment_type = ''check_up'', reason = [], ap_status = st, ap_notes = [],
      ap_created_at = 0, ap_updated_at = 0\<rparr>"

definition example_diagnosis_history :: "nat \<Rightarrow> nat \<Rightarrow> string \<Rightarrow> int \<Rightarrow> diagnosis_history" where
  "example_diagnosis_history i p m y =
     \<lparr>dh_id = UUID i, dh_patient = Some (UUID p), dh_doctor = None, dh_month = m, dh_year = y,
      blood_pressure_systolic_value = 120, blood_pressure_systolic_levels = ''normal'',
      blood_pressure_diastolic_value = 80, blood_pressure_diastolic_levels = ''normal'',
      heart_rate_value = 70, heart_rate_levels = ''normal'',
      respiratory_rate_value = 16, respiratory_rate_levels = ''normal'',
      temperature_value = Float 98.6, temperature_levels = ''normal'',
      dh_created_at = 0, dh_updated_at = 0\<rparr>"

definition slots_distinct :: "db \<Rightarrow> bool" where
  "slots_distinct d \<longleftrightarrow> distinct (map unique_doctor_appointment_slot (appointments d))"

definition example_lab_result :: "nat \<Rightarrow> nat \<Rightarrow> nat option \<Rightarrow> lab_result" where
  "example_lab_result i p k =
     \<lparr>lr_id = UUID i, lr_patient = Some (UUID p), lr_doctor = map_option UUID k,
      lr_name = ''HbA1c'', result_value = ''5.4'', result_unit = ''%'',
      reference_range = ''4.0-5.6'', lr_status = ''normal'',
      performed_date = \<lparr>year = 2024, month = 6, day = 14\<rparr>, reported_date = None,
      lr_notes = [], lr_created_at = 100, lr_updated_at = 100\<rparr>"

definition doctor_required :: "db \<Rightarrow> bool" where
  "doctor_required d \<longleftrightarrow> list_all (\<lambda>r. ap_doctor r \<noteq> None) (appointments d)"

definition row_checks :: "diagnosis_history \<Rightarrow> bool" where
  "row_checks r \<longleftrightarrow>
     list_all fits_integer (positive_integer_columns r) \<and> dh_patient r \<noteq> None
     \<and> temperature_value r \<noteq> NaN \<and> list_all (\<lambda>v. 0 \<le> v) (positive_integer_columns r)"

definition example_user :: user where
  "example_user = \<lparr>user_id = 1, email = ''Ann@example.com'', password = ''hash$secret'',
     first_name = [], last_name = [], user_type = [], phone_number = [],
     profile_picture = None, is_staff = False, is_superuser = False, is_active = True,
     created_at = 100, updated_at = 100\<rparr>"

definition example_user_db :: db where
  "example_user_db = empty_db\<lparr>users := [example_user], user_seq := 1\<rparr>"

definition example_admin :: user where
  "example_admin = example_user\<lparr>is_staff := True, is_superuser := True, user_type := ''admin''\<rparr>"

section \<open>Properties\<close>

subsection \<open>Age\<close>

text \<open>
  C3. For every birth date and every current date, the age is the difference of the
  years, less one exactly when the current (month, day) lexicographically precedes the
  birth (month, day). For a birth on 2000-06-15 it is 23 on 2024-06-14 and 24 on
  2024-06-15.
\<close>

theorem age_whole_years:
  "age today born = spec_age today born
   \<and> (age today born = year today - year born - 1 \<longleftrightarrow> precedes today born)
   \<and> (age today born = year today - year born \<longleftrightarrow> \<not> precedes today born)
   \<and> age \<lparr>year = 2024, month = 6, day = 14\<rparr> \<lparr>year = 2000, month = 6, day = 15\<rparr> = 23
   \<and> age \<lparr>year = 2024, month = 6, day = 15\<rparr> \<lparr>year = 2000, month = 6, day = 15\<rparr> = 24"
  by (auto simp add: age_def spec_age_def precedes_def int_of_bool_def less_prod_def)

theorem age_whole_years_witness:
  "age \<lparr>year = 2024, month = 1, day = 31\<rparr> \<lparr>year = 1990, month = 12, day = 1\<rparr> = 33
   \<and> precedes \<lparr>year = 2024, month = 1, day = 31\<rparr> \<lparr>year = 1990, month = 12, day = 1\<rparr>"
  using age_whole_years [of "\<lparr>year = 2024, month = 1, day = 31\<rparr>"
      "\<lparr>year = 1990, month = 12, day = 1\<rparr>"]
  by (simp add: precedes_def)

subsection \<open>Uniqueness constraints and on-delete actions\<close>

lemma violates_unique_append:
  "violates_unique key (rows @ [x]) row \<longleftrightarrow> violates_unique key rows row \<or> key x = key row"
  by (auto simp add: violates_unique_def)

lemma violates_unique_Nil: "\<not> violates_unique key [] row"
  by (simp add: violates_unique_def)

lemma clinic_db_tables:
  "patients clinic_db = [example_patient 10]"
  "doctors clinic_db = [example_doctor 20, example_doctor 21]"
  "appointments clinic_db = []"
  "diagnosis_histories clinic_db = []"
  by (simp_all add: clinic_db_def empty_db_def)

lemma insert_appointment_Inr_iff:
  "insert_appointment now d a = Inr d' \<longleftrightarrow>
     ap_patient a \<noteq> None \<and> ap_doctor a \<noteq> None
     \<and> \<not> violates_unique unique_doctor_appointment_slot (appointments d) a
     \<and> \<not> violates_unique ap_id (appointments d) a
     \<and> references pt_id (patients d) (ap_patient a)
     \<and> references dr_id (doctors d) (ap_doctor a)
     \<and> d' = d\<lparr>appointments := appointments d @ [a\<lparr>ap_created_at := now, ap_updated_at := now\<rparr>]\<rparr>"
  unfolding insert_appointment_def by auto

lemma insert_appointment_slot_taken:
  "r \<in> set (appointments d) \<Longrightarrow>
   unique_doctor_appointment_slot a = unique_doctor_appointment_slot r \<Longrightarrow>
   ap_patient a \<noteq> None \<Longrightarrow> ap_doctor a \<noteq> None \<Longrightarrow>
   insert_appointment now d a = Inl (IntegrityError ''unique_doctor_appointment_slot'')"
  unfolding insert_appointment_def violates_unique_def by auto

text \<open>
  C1. An insert for the doctor, date and time of a stored appointment fails with the
  integrity error of the constraint \<^verbatim>\<open>unique_doctor_appointment_slot\<close>, whether
  the stored row was inserted just before or at any earlier time. After an appointment
  has been inserted, an insert for the same patient, date and time with a different,
  existing doctor whose slot is free succeeds and appends the row. An insert succeeds
  exactly when patient and doctor are given and exist, the slot is free and the key is
  fresh.
\<close>

theorem appointment_slot_unique:
  "(insert_appointment now d a1 = Inr d1
      \<and> ap_patient a2 \<noteq> None
      \<and> ap_doctor a2 = ap_doctor a1
      \<and> appointment_date a2 = appointment_date a1
      \<and> appointment_time a2 = appointment_time a1
    \<longrightarrow> insert_appointment now' d1 a2 = Inl (IntegrityError ''unique_doctor_appointment_slot''))
   \<and> (insert_appointment now d a1 = Inr d1
      \<and> ap_patient a2 = ap_patient a1
      \<and> appointment_date a2 = appointment_date a1
      \<and> appointment_time a2 = appointment_time a1
      \<and> ap_doctor a2 \<noteq> None \<and> ap_doctor a2 \<noteq> ap_doctor a1
      \<and> references dr_id (doctors d) (ap_doctor a2)
      \<and> \<not> violates_unique ap_id (appointments d1) a2
      \<and> \<not> violates_unique unique_doctor_appointment_slot (appointments d) a2
    \<longrightarrow> insert_appointment now' d1 a2 =
          Inr (d1\<lparr>appointments := appointments d1
                 @ [a2\<lparr>ap_created_at := now', ap_updated_at := now'\<rparr>]\<rparr>))
   \<and> (r \<in> set (appointments d)
      \<and> ap_patient a2 \<noteq> None \<and> ap_doctor a2 \<noteq> None
      \<and> ap_doctor a2 = ap_doctor r
      \<and> appointment_date a2 = appointment_date r
      \<and> appointment_time a2 = appointment_time r
    \<longrightarrow> insert_appointment now d a2 = Inl (IntegrityError ''unique_doctor_appointment_slot''))
   \<and> ((\<exists>d'. insert_appointment now d a2 = Inr d') \<longleftrightarrow>
        ap_patient a2 \<noteq> None \<and> ap_doctor a2 \<noteq> None
        \<and> \<not> violates_unique unique_doctor_appointment_slot (appointments d) a2
        \<and> \<not> violates_unique ap_id (appointments d) a2
        \<and> references pt_id (patients d) (ap_patient a2)
        \<and> references dr_id (doctors d) (ap_doctor a2))"
proof (intro conjI impI)
  assume h: "insert_appointment now d a1 = Inr d1
      \<and> ap_patient a2 \<noteq> None
      \<and> ap_doctor a2 = ap_doctor a1
      \<and> appointment_date a2 = appointment_date a1
      \<and> appointment_time a2 = appointment_time a1"
  then have first: "insert_appointment now d a1 = Inr d1" by blast
  let ?r = "a1\<lparr>ap_created_at := now, ap_updated_at := now\<rparr>"
  from first have mem: "?r \<in> set (appointments d1)" and doc: "ap_doctor a1 \<noteq> None"
    by (simp_all add: insert_appointment_Inr_iff)
  have key: "unique_doctor_appointment_slot a2 = unique_doctor_appointment_slot ?r"
    using h by (simp add: unique_doctor_appointment_slot_def)
  from h doc have pat: "ap_patient a2 \<noteq> None" and doc2: "ap_doctor a2 \<noteq> None"
    by simp_all
  show "insert_appointment now' d1 a2 = Inl (IntegrityError ''unique_doctor_appointment_slot'')"
    by (rule insert_appointment_slot_taken [OF mem key pat doc2])
next
  assume h: "insert_appointment now d a1 = Inr d1
      \<and> ap_patient a2 = ap_patient a1
      \<and> appointment_date a2 = appointment_date a1
      \<and> appointment_time a2 = appointment_time a1
      \<and> ap_doctor a2 \<noteq> None \<and> ap_doctor a2 \<noteq> ap_doctor a1
      \<and> references dr_id (doctors d) (ap_doctor a2)
      \<and> \<not> violates_unique ap_id (appointments d1) a2
      \<and> \<not> violates_unique unique_doctor_appointment_slot (appointments d) a2"
  then have first: "insert_appointment now d a1 = Inr d1" by blast
  from first have d1: "d1 = d\<lparr>appointments := appointments d
          @ [a1\<lparr>ap_created_at := now, ap_updated_at := now\<rparr>]\<rparr>"
    and pat: "ap_patient a1 \<noteq> None" and ref: "references pt_id (patients d) (ap_patient a1)"
    by (simp_all add: insert_appointment_Inr_iff)
  from h have same: "ap_patient a2 = ap_patient a1" and doc: "ap_doctor a2 \<noteq> None"
    and other: "ap_doctor a2 \<noteq> ap_doctor a1"
    and refd: "references dr_id (doctors d) (ap_doctor a2)"
    and fresh: "\<not> violates_unique ap_id (appointments d1) a2"
    and free0: "\<not> violates_unique unique_doctor_appointment_slot (appointments d) a2"
    by blast+
  have tables: "patients d1 = patients d" "doctors d1 = doctors d"
    by (simp_all add: d1)
  have free: "\<not> violates_unique unique_doctor_appointment_slot (appointments d1) a2"
    using free0 other by (simp add: d1 violates_unique_append unique_doctor_appointment_slot_def)
  have pat2: "ap_patient a2 \<noteq> None"
    using pat same by simp
  have ref2: "references pt_id (patients d1) (ap_patient a2)"
    using ref same by (simp add: tables)
  have refd2: "references dr_id (doctors d1) (ap_doctor a2)"
    using refd by (simp add: tables)
  show "insert_appointment now' d1 a2 =
          Inr (d1\<lparr>appointments := appointments d1
                 @ [a2\<lparr>ap_created_at := now', ap_updated_at := now'\<rparr>]\<rparr>)"
    by (rule iffD2 [OF insert_appointment_Inr_iff]) (intro conjI pat2 doc free fresh ref2 refd2 refl)
next
  assume h: "r \<in> set (appointments d)
      \<and> ap_patient a2 \<noteq> None \<and> ap_doctor a2 \<noteq> None
      \<and> ap_doctor a2 = ap_doctor r
      \<and> appointment_date a2 = appointment_date r
      \<and> appointment_time a2 = appointment_time r"
  then have key: "unique_doctor_appointment_slot a2 = unique_doctor_appointment_slot r"
    by (simp add: unique_doctor_appointment_slot_def)
  from h have mem: "r \<in> set (appointments d)"
    and pat: "ap_patient a2 \<noteq> None" and doc: "ap_doctor a2 \<noteq> None"
    by blast+
  show "insert_appointment now d a2 = Inl (IntegrityError ''unique_doctor_appointment_slot'')"
    by (rule insert_appointment_slot_taken [OF mem key pat doc])
next
  show "(\<exists>d'. insert_appointment now d a2 = Inr d') \<longleftrightarrow>
        ap_patient a2 \<noteq> None \<and> ap_doctor a2 \<noteq> None
        \<and> \<not> violates_unique unique_doctor_appointment_slot (appointments d) a2
        \<and> \<not> violates_unique ap_id (appointments d) a2
        \<and> references pt_id (patients d) (ap_patient a2)
        \<and> references dr_id (doctors d) (ap_doctor a2)"
    by (simp add: insert_appointment_Inr_iff)
qed

theorem appointment_slot_unique_witness:
  "insert_appointment 100 clinic_db (example_appointment 1 10 20 ''scheduled'')
     = Inr (clinic_db\<lparr>appointments :=
              [(example_appointment 1 10 20 ''scheduled'')\<lparr>ap_created_at := 100, ap_updated_at := 100\<rparr>]\<rparr>)
   \<and> insert_appointment 200
        (clinic_db\<lparr>appointments :=
              [(example_appointment 1 10 20 ''scheduled'')\<lparr>ap_created_at := 100, ap_updated_at := 100\<rparr>]\<rparr>)
        (example_appointment 2 10 20 ''scheduled'')
     = Inl (IntegrityError ''unique_doctor_appointment_slot'')
   \<and> insert_appointment 200
        (clinic_db\<lparr>appointments :=
              [(example_appointment 1 10 20 ''scheduled'')\<lparr>ap_created_at := 100, ap_updated_at := 100\<rparr>]\<rparr>)
        (example_appointment 3 10 21 ''scheduled'')
     = Inr (clinic_db\<lparr>appointments :=
              [(example_appointment 1 10 20 ''scheduled'')\<lparr>ap_created_at := 100, ap_updated_at := 100\<rparr>,
               (example_appointment 3 10 21 ''scheduled'')\<lparr>ap_created_at := 200, ap_updated_at := 200\<rparr>]\<rparr>)
   \<and> insert_appointment 100 empty_db (example_appointment 1 10 20 ''scheduled'')
     = Inl (IntegrityError ''FOREIGN KEY'')"
proof -
  let ?a1 = "example_appointment 1 10 20 ''scheduled''"
  let ?a2 = "example_appointment 2 10 20 ''scheduled''"
  let ?a3 = "example_appointment 3 10 21 ''scheduled''"
  let ?d1 = "clinic_db\<lparr>appointments := [?a1\<lparr>ap_created_at := 100, ap_updated_at := 100\<rparr>]\<rparr>"
  have first: "insert_appointment 100 clinic_db ?a1 = Inr ?d1"
    by (simp add: insert_appointment_def clinic_db_def empty_db_def example_appointment_def
          example_patient_def example_doctor_def references_def violates_unique_Nil)
  have orphan: "insert_appointment 100 empty_db ?a1 = Inl (IntegrityError ''FOREIGN KEY'')"
    by (simp add: insert_appointment_def empty_db_def example_appointment_def references_def
          violates_unique_Nil)
  have fresh3: "\<not> violates_unique ap_id (appointments ?d1) ?a3"
    by (simp add: violates_unique_def example_appointment_def)
  have free3: "\<not> violates_unique unique_doctor_appointment_slot (appointments clinic_db) ?a3"
    by (simp add: violates_unique_def clinic_db_def empty_db_def)
  have ref3: "references dr_id (doctors clinic_db) (ap_doctor ?a3)"
    by (simp add: references_def clinic_db_def example_appointment_def example_doctor_def)
  have second: "insert_appointment 200 ?d1 ?a2
                  = Inl (IntegrityError ''unique_doctor_appointment_slot'')"
    by (rule appointment_slot_unique [of 100 clinic_db ?a1 ?d1 ?a2 200, THEN conjunct1, THEN mp])
       (intro conjI first; simp add: example_appointment_def)
  have "insert_appointment 200 ?d1 ?a3 =
          Inr (?d1\<lparr>appointments := appointments ?d1
                 @ [?a3\<lparr>ap_created_at := 200, ap_updated_at := 200\<rparr>]\<rparr>)"
    by (rule appointment_slot_unique [of 100 clinic_db ?a1 ?d1 ?a3 200, THEN conjunct2,
          THEN conjunct1, THEN mp])
       (intro conjI first fresh3 free3 ref3; simp add: example_appointment_def)
  then have third: "insert_appointment 200 ?d1 ?a3 =
          Inr (clinic_db\<lparr>appointments := [?a1\<lparr>ap_created_at := 100, ap_updated_at := 100\<rparr>,
                 ?a3\<lparr>ap_created_at := 200, ap_updated_at := 200\<rparr>]\<rparr>)"
    by simp
  from first second third orphan show ?thesis by blast
qed

lemma positive_integer_columns_stamp [simp]:
  "positive_integer_columns (r\<lparr>dh_created_at := s, dh_updated_at := t\<rparr>)
     = positive_integer_columns r"
  by (simp add: positive_integer_columns_def)

lemma insert_diagnosis_history_Inr_iff:
  "insert_diagnosis_history now d r = Inr d' \<longleftrightarrow>
     row_checks r
     \<and> \<not> violates_unique unique_patient_diagnosis_history (diagnosis_histories d) r
     \<and> \<not> violates_unique dh_id (diagnosis_histories d) r
     \<and> references pt_id (patients d) (dh_patient r)
     \<and> references dr_id (doctors d) (dh_doctor r)
     \<and> d' = d\<lparr>diagnosis_histories :=
               diagnosis_histories d @ [r\<lparr>dh_created_at := now, dh_updated_at := now\<rparr>]\<rparr>"
  unfolding insert_diagnosis_history_def row_checks_def by auto

lemma insert_diagnosis_history_taken:
  "x \<in> set (diagnosis_histories d) \<Longrightarrow>
   unique_patient_diagnosis_history r = unique_patient_diagnosis_history x \<Longrightarrow>
   row_checks r \<Longrightarrow>
   insert_diagnosis_history now d r = Inl (IntegrityError ''unique_patient_diagnosis_history'')"
  unfolding insert_diagnosis_history_def violates_unique_def row_checks_def by auto

text \<open>
  C2. An insert for the patient, month and year of a stored diagnosis-history record
  fails, whether the stored record was inserted just before or at any earlier time; when
  the new row passes the checks of its own columns, the failure is the integrity error of
  the constraint \<^verbatim>\<open>unique_patient_diagnosis_history\<close>. After a record has been
  inserted, a record of the same patient that differs in the month or in the year is
  accepted as well, provided it is a row the store admits otherwise (its own columns pass
  their checks, its doctor is absent or exists, its key is fresh and its patient, month
  and year are free). An insert succeeds exactly under these conditions.
\<close>

theorem diagnosis_history_unique:
  "(insert_diagnosis_history now d r1 = Inr d1
      \<and> dh_patient r2 = dh_patient r1 \<and> dh_month r2 = dh_month r1 \<and> dh_year r2 = dh_year r1
    \<longrightarrow> (\<exists>e. insert_diagnosis_history now' d1 r2 = Inl e)
        \<and> (row_checks r2 \<longrightarrow> insert_diagnosis_history now' d1 r2
              = Inl (IntegrityError ''unique_patient_diagnosis_history'')))
   \<and> (insert_diagnosis_history now d r1 = Inr d1
      \<and> dh_patient r2 = dh_patient r1
      \<and> (dh_month r2 \<noteq> dh_month r1 \<or> dh_year r2 \<noteq> dh_year r1)
      \<and> row_checks r2
      \<and> references dr_id (doctors d) (dh_doctor r2)
      \<and> \<not> violates_unique dh_id (diagnosis_histories d1) r2
      \<and> \<not> violates_unique unique_patient_diagnosis_history (diagnosis_histories d) r2
    \<longrightarrow> insert_diagnosis_history now' d1 r2 =
          Inr (d1\<lparr>diagnosis_histories := diagnosis_histories d1
                 @ [r2\<lparr>dh_created_at := now', dh_updated_at := now'\<rparr>]\<rparr>))
   \<and> (x \<in> set (diagnosis_histories d) \<and> row_checks r2
      \<and> dh_patient r2 = dh_patient x \<and> dh_month r2 = dh_month x \<and> dh_year r2 = dh_year x
    \<longrightarrow> insert_diagnosis_history now d r2
          = Inl (IntegrityError ''unique_patient_diagnosis_history''))
   \<and> ((\<exists>d'. insert_diagnosis_history now d r2 = Inr d') \<longleftrightarrow>
        row_checks r2
        \<and> \<not> violates_unique unique_patient_diagnosis_history (diagnosis_histories d) r2
        \<and> \<not> violates_unique dh_id (diagnosis_histories d) r2
        \<and> references pt_id (patients d) (dh_patient r2)
        \<and> references dr_id (doctors d) (dh_doctor r2))"
proof (intro conjI impI)
  assume h: "insert_diagnosis_history now d r1 = Inr d1
      \<and> dh_patient r2 = dh_patient r1 \<and> dh_month r2 = dh_month r1 \<and> dh_year r2 = dh_year r1"
  then have first: "insert_diagnosis_history now d r1 = Inr d1" by blast
  let ?x = "r1\<lparr>dh_created_at := now, dh_updated_at := now\<rparr>"
  from first have mem: "?x \<in> set (diagnosis_histories d1)"
    by (simp add: insert_diagnosis_history_Inr_iff)
  have key: "unique_patient_diagnosis_history r2 = unique_patient_diagnosis_history ?x"
    using h by (simp add: unique_patient_diagnosis_history_def)
  from mem key have taken: "violates_unique unique_patient_diagnosis_history (diagnosis_histories d1) r2"
    unfolding violates_unique_def by metis
  then show "\<exists>e. insert_diagnosis_history now' d1 r2 = Inl e"
    by (simp add: insert_diagnosis_history_def)
  assume "row_checks r2"
  with mem key show "insert_diagnosis_history now' d1 r2
              = Inl (IntegrityError ''unique_patient_diagnosis_history'')"
    by (rule insert_diagnosis_history_taken)
next
  assume h: "insert_diagnosis_history now d r1 = Inr d1
      \<and> dh_patient r2 = dh_patient r1
      \<and> (dh_month r2 \<noteq> dh_month r1 \<or> dh_year r2 \<noteq> dh_year r1)
      \<and> row_checks r2
      \<and> references dr_id (doctors d) (dh_doctor r2)
      \<and> \<not> violates_unique dh_id (diagnosis_histories d1) r2
      \<and> \<not> violates_unique unique_patient_diagnosis_history (diagnosis_histories d) r2"
  then have first: "insert_diagnosis_history now d r1 = Inr d1" by blast
  from first have d1: "d1 = d\<lparr>diagnosis_histories := diagnosis_histories d
          @ [r1\<lparr>dh_created_at := now, dh_updated_at := now\<rparr>]\<rparr>"
    and ref: "references pt_id (patients d) (dh_patient r1)"
    by (simp_all add: insert_diagnosis_history_Inr_iff)
  from h have same: "dh_patient r2 = dh_patient r1"
    and other: "dh_month r2 \<noteq> dh_month r1 \<or> dh_year r2 \<noteq> dh_year r1"
    and ok: "row_checks r2"
    and refd: "references dr_id (doctors d) (dh_doctor r2)"
    and fresh: "\<not> violates_unique dh_id (diagnosis_histories d1) r2"
    and free0: "\<not> violates_unique unique_patient_diagnosis_history (diagnosis_histories d) r2"
    by blast+
  have tables: "patients d1 = patients d" "doctors d1 = doctors d"
    by (simp_all add: d1)
  have free: "\<not> violates_unique unique_patient_diagnosis_history (diagnosis_histories d1) r2"
    using free0 other
    by (auto simp add: d1 violates_unique_append unique_patient_diagnosis_history_def)
  have ref2: "references pt_id (patients d1) (dh_patient r2)"
    using ref same by (simp add: tables)
  have refd2: "references dr_id (doctors d1) (dh_doctor r2)"
    using refd by (simp add: tables)
  show "insert_diagnosis_history now' d1 r2 =
          Inr (d1\<lparr>diagnosis_histories := diagnosis_histories d1
                 @ [r2\<lparr>dh_created_at := now', dh_updated_at := now'\<rparr>]\<rparr>)"
    by (rule iffD2 [OF insert_diagnosis_history_Inr_iff])
       (intro conjI ok free fresh ref2 refd2 refl)
next
  assume h: "x \<in> set (diagnosis_histories d) \<and> row_checks r2
      \<and> dh_patient r2 = dh_patient x \<and> dh_month r2 = dh_month x \<and> dh_year r2 = dh_year x"
  then have key: "unique_patient_diagnosis_history r2 = unique_patient_diagnosis_history x"
    by (simp add: unique_patient_diagnosis_history_def)
  from h have mem: "x \<in> set (diagnosis_histories d)" and ok: "row_checks r2"
    by blast+
  show "insert_diagnosis_history now d r2
          = Inl (IntegrityError ''unique_patient_diagnosis_history'')"
    by (rule insert_diagnosis_history_taken [OF mem key ok])
next
  show "(\<exists>d'. insert_diagnosis_history now d r2 = Inr d') \<longleftrightarrow>
        row_checks r2
        \<and> \<not> violates_unique unique_patient_diagnosis_history (diagnosis_histories d) r2
        \<and> \<not> violates_unique dh_id (diagnosis_histories d) r2
        \<and> references pt_id (patients d) (dh_patient r2)
        \<and> references dr_id (doctors d) (dh_doctor r2)"
    by (simp add: insert_diagnosis_history_Inr_iff)
qed

lemma example_row_checks: "0 \<le> y \<Longrightarrow> y < 2 ^ 63 \<Longrightarrow> row_checks (example_diagnosis_history i p m y)"
  by (simp add: row_checks_def example_diagnosis_history_def positive_integer_columns_def
        fits_integer_def)

theorem diagnosis_history_unique_witness:
  "insert_diagnosis_history 100 clinic_db (example_diagnosis_history 1 10 ''March'' 2024)
     = Inr (clinic_db\<lparr>diagnosis_histories :=
          [(example_diagnosis_history 1 10 ''March'' 2024)\<lparr>dh_created_at := 100, dh_updated_at := 100\<rparr>]\<rparr>)
   \<and> insert_diagnosis_history 200
        (clinic_db\<lparr>diagnosis_histories :=
          [(example_diagnosis_history 1 10 ''March'' 2024)\<lparr>dh_created_at := 100, dh_updated_at := 100\<rparr>]\<rparr>)
        (example_diagnosis_history 2 10 ''March'' 2024)
     = Inl (IntegrityError ''unique_patient_diagnosis_history'')
   \<and> insert_diagnosis_history 200
        (clinic_db\<lparr>diagnosis_histories :=
          [(example_diagnosis_history 1 10 ''March'' 2024)\<lparr>dh_created_at := 100, dh_updated_at := 100\<rparr>]\<rparr>)
        (example_diagnosis_history 3 10 ''March'' 2023)
     = Inr (clinic_db\<lparr>diagnosis_histories :=
          [(example_diagnosis_history 1 10 ''March'' 2024)\<lparr>dh_created_at := 100, dh_updated_at := 100\<rparr>,
           (example_diagnosis_history 3 10 ''March'' 2023)\<lparr>dh_created_at := 200, dh_updated_at := 200\<rparr>]\<rparr>)
   \<and> insert_diagnosis_history 100 clinic_db (example_diagnosis_history 4 10 ''March'' (- 1))
     = Inl (IntegrityError ''CHECK'')
   \<and> insert_diagnosis_history 100 empty_db (example_diagnosis_history 1 10 ''March'' 2024)
     = Inl (IntegrityError ''FOREIGN KEY'')"
proof -
  let ?r1 = "example_diagnosis_history 1 10 ''March'' 2024"
  let ?r2 = "example_diagnosis_history 2 10 ''March'' 2024"
  let ?r3 = "example_diagnosis_history 3 10 ''March'' 2023"
  let ?d1 = "clinic_db\<lparr>diagnosis_histories := [?r1\<lparr>dh_created_at := 100, dh_updated_at := 100\<rparr>]\<rparr>"
  have ref1: "references pt_id (patients clinic_db) (dh_patient ?r1)"
    "references dr_id (doctors clinic_db) (dh_doctor ?r1)"
    by (simp_all add: references_def clinic_db_tables example_diagnosis_history_def
          example_patient_def)
  have ok1: "row_checks ?r1"
    by (simp add: example_row_checks)
  have free1: "\<not> violates_unique unique_patient_diagnosis_history (diagnosis_histories clinic_db) ?r1"
    "\<not> violates_unique dh_id (diagnosis_histories clinic_db) ?r1"
    by (simp_all add: clinic_db_tables violates_unique_Nil)
  have first: "insert_diagnosis_history 100 clinic_db ?r1 = Inr ?d1"
    by (rule iffD2 [OF insert_diagnosis_history_Inr_iff])
       (intro conjI ok1 free1 ref1; simp add: clinic_db_tables)
  have negative: "insert_diagnosis_history 100 clinic_db (example_diagnosis_history 4 10 ''March'' (- 1))
     = Inl (IntegrityError ''CHECK'')"
    by (simp add: insert_diagnosis_history_def example_diagnosis_history_def
          positive_integer_columns_def fits_integer_def)
  have orphan: "insert_diagnosis_history 100 empty_db ?r1 = Inl (IntegrityError ''FOREIGN KEY'')"
    by (simp add: insert_diagnosis_history_def example_diagnosis_history_def
          positive_integer_columns_def fits_integer_def references_def empty_db_def
          violates_unique_Nil)
  have fresh3: "\<not> violates_unique dh_id (diagnosis_histories ?d1) ?r3"
    by (simp add: violates_unique_def example_diagnosis_history_def)
  have free3: "\<not> violates_unique unique_patient_diagnosis_history (diagnosis_histories clinic_db) ?r3"
    by (simp add: violates_unique_def clinic_db_def empty_db_def)
  have ref3: "references dr_id (doctors clinic_db) (dh_doctor ?r3)"
    by (simp add: references_def example_diagnosis_history_def)
  have ok2: "row_checks ?r2" and ok3: "row_checks ?r3"
    by (simp_all add: example_row_checks)
  have prem2: "insert_diagnosis_history 100 clinic_db ?r1 = Inr ?d1
      \<and> dh_patient ?r2 = dh_patient ?r1 \<and> dh_month ?r2 = dh_month ?r1 \<and> dh_year ?r2 = dh_year ?r1"
    using first by (simp add: example_diagnosis_history_def)
  have second: "insert_diagnosis_history 200 ?d1 ?r2
                  = Inl (IntegrityError ''unique_patient_diagnosis_history'')"
    by (rule diagnosis_history_unique [of 100 clinic_db ?r1 ?d1 ?r2 200, THEN conjunct1,
          THEN mp, OF prem2, THEN conjunct2, THEN mp, OF ok2])
  have "insert_diagnosis_history 200 ?d1 ?r3 =
          Inr (?d1\<lparr>diagnosis_histories := diagnosis_histories ?d1
                 @ [?r3\<lparr>dh_created_at := 200, dh_updated_at := 200\<rparr>]\<rparr>)"
    by (rule diagnosis_history_unique [of 100 clinic_db ?r1 ?d1 ?r3 200, THEN conjunct2,
          THEN conjunct1, THEN mp])
       (intro conjI first fresh3 free3 ref3 ok3; simp add: example_diagnosis_history_def)
  then have third: "insert_diagnosis_history 200 ?d1 ?r3 =
          Inr (clinic_db\<lparr>diagnosis_histories := [?r1\<lparr>dh_created_at := 100, dh_updated_at := 100\<rparr>,
                 ?r3\<lparr>dh_created_at := 200, dh_updated_at := 200\<rparr>]\<rparr>)"
    by simp
  from first second third negative orphan show ?thesis by blast
qed

lemma violates_unique_iff: "violates_unique key rows row \<longleftrightarrow> key row \<in> set (map key rows)"
  unfolding violates_unique_def by (simp add: image_iff) metis

lemma insert_appointment_taken:
  "r \<in> set (appointments d) \<Longrightarrow>
   unique_doctor_appointment_slot a = unique_doctor_appointment_slot r \<Longrightarrow>
   ap_patient a \<noteq> None \<Longrightarrow> ap_doctor a \<noteq> None \<Longrightarrow>
   \<not> violates_unique ap_id (appointments d) a \<Longrightarrow>
   insert_appointment now d a = Inl (IntegrityError ''unique_doctor_appointment_slot'')"
  by (rule insert_appointment_slot_taken)

lemma insert_appointment_Inr:
  "insert_appointment now d a = Inr d' \<Longrightarrow>
   d' = d\<lparr>appointments := appointments d @ [a\<lparr>ap_created_at := now, ap_updated_at := now\<rparr>]\<rparr>
   \<and> ap_patient a \<noteq> None \<and> ap_doctor a \<noteq> None
   \<and> \<not> violates_unique ap_id (appointments d) a
   \<and> \<not> violates_unique unique_doctor_appointment_slot (appointments d) a"
  by (simp add: insert_appointment_Inr_iff)

lemma slot_stamp [simp]:
  "unique_doctor_appointment_slot (a\<lparr>ap_created_at := s, ap_updated_at := t\<rparr>)
     = unique_doctor_appointment_slot a"
  by (simp add: unique_doctor_appointment_slot_def)

lemma slot_status [simp]:
  "unique_doctor_appointment_slot (a\<lparr>ap_status := st\<rparr>) = unique_doctor_appointment_slot a"
  by (simp add: unique_doctor_appointment_slot_def)

lemma violates_unique_restatus:
  "violates_unique unique_doctor_appointment_slot (map (\<lambda>x. x\<lparr>ap_status := f x\<rparr>) rows) a
     = violates_unique unique_doctor_appointment_slot rows a"
  "violates_unique ap_id (map (\<lambda>x. x\<lparr>ap_status := f x\<rparr>) rows) a
     = violates_unique ap_id rows a"
  by (simp_all add: violates_unique_def)

lemma insert_appointment_restatus:
  "insert_appointment now (d\<lparr>appointments := map (\<lambda>x. x\<lparr>ap_status := f x\<rparr>) (appointments d)\<rparr>) a = Inl e
     \<longleftrightarrow> insert_appointment now d a = Inl e"
  unfolding insert_appointment_def by (simp add: violates_unique_restatus)

lemma slots_distinct_insert:
  "slots_distinct d \<Longrightarrow> insert_appointment now d a = Inr d' \<Longrightarrow> slots_distinct d'"
  by (drule insert_appointment_Inr) (simp add: slots_distinct_def violates_unique_iff)

lemma slots_distinct_delete:
  "slots_distinct d \<Longrightarrow> slots_distinct (delete_doctor d k) \<and> slots_distinct (delete_patient d k)"
  by (simp add: slots_distinct_def delete_doctor_def delete_patient_def
        appointment_doctor_on_delete_def appointment_patient_on_delete_def distinct_map_filter)

text \<open>
  C10. The slot constraint ignores the status. A stored appointment whose status is
  cancelled, no_show or rescheduled still makes an insert for its doctor, date and time
  fail; changing the status of a row does not change its slot; whether an insert fails,
  and with which error, is the same whatever statuses the stored rows have; and the
  slots of the stored appointments stay pairwise distinct under inserts and deletions.
\<close>

theorem slot_occupied_whatever_status:
  "(r \<in> set (appointments d)
      \<and> ap_status r \<in> {''cancelled'', ''no_show'', ''rescheduled''}
      \<and> ap_doctor a = ap_doctor r
      \<and> appointment_date a = appointment_date r
      \<and> appointment_time a = appointment_time r
      \<and> ap_patient a \<noteq> None \<and> ap_doctor a \<noteq> None
      \<and> \<not> violates_unique ap_id (appointments d) a
    \<longrightarrow> insert_appointment now d a = Inl (IntegrityError ''unique_doctor_appointment_slot''))
   \<and> unique_doctor_appointment_slot (r\<lparr>ap_status := st\<rparr>) = unique_doctor_appointment_slot r
   \<and> (insert_appointment now (d\<lparr>appointments := map (\<lambda>x. x\<lparr>ap_status := f x\<rparr>) (appointments d)\<rparr>) a = Inl e
        \<longleftrightarrow> insert_appointment now d a = Inl e)
   \<and> (slots_distinct d \<and> insert_appointment now d a = Inr d' \<longrightarrow> slots_distinct d')
   \<and> (slots_distinct d \<longrightarrow> slots_distinct (delete_doctor d k) \<and> slots_distinct (delete_patient d k))"
proof (intro conjI impI)
  assume h: "r \<in> set (appointments d)
      \<and> ap_status r \<in> {''cancelled'', ''no_show'', ''rescheduled''}
      \<and> ap_doctor a = ap_doctor r
      \<and> appointment_date a = appointment_date r
      \<and> appointment_time a = appointment_time r
      \<and> ap_patient a \<noteq> None \<and> ap_doctor a \<noteq> None
      \<and> \<not> violates_unique ap_id (appointments d) a"
  then have key: "unique_doctor_appointment_slot a = unique_doctor_appointment_slot r"
    by (simp add: unique_doctor_appointment_slot_def)
  from h have mem: "r \<in> set (appointments d)"
    and pat: "ap_patient a \<noteq> None" and doc: "ap_doctor a \<noteq> None"
    and fresh: "\<not> violates_unique ap_id (appointments d) a"
    by blast+
  show "insert_appointment now d a = Inl (IntegrityError ''unique_doctor_appointment_slot'')"
    by (rule insert_appointment_taken [OF mem key pat doc fresh])
next
  show "unique_doctor_appointment_slot (r\<lparr>ap_status := st\<rparr>) = unique_doctor_appointment_slot r"
    by simp
next
  show "insert_appointment now (d\<lparr>appointments := map (\<lambda>x. x\<lparr>ap_status := f x\<rparr>) (appointments d)\<rparr>) a = Inl e
        \<longleftrightarrow> insert_appointment now d a = Inl e"
    by (rule insert_appointment_restatus)
next
  assume "slots_distinct d \<and> insert_appointment now d a = Inr d'"
  then show "slots_distinct d'"
    using slots_distinct_insert by blast
next
  assume "slots_distinct d"
  then show "slots_distinct (delete_doctor d k)" "slots_distinct (delete_patient d k)"
    using slots_distinct_delete by blast+
qed

theorem slot_occupied_whatever_status_witness:
  "insert_appointment 200
     (empty_db\<lparr>appointments := [example_appointment 1 10 20 ''cancelled'']\<rparr>)
     (example_appointment 2 11 20 ''scheduled'')
   = Inl (IntegrityError ''unique_doctor_appointment_slot'')"
proof -
  let ?r = "example_appointment 1 10 20 ''cancelled''"
  let ?a = "example_appointment 2 11 20 ''scheduled''"
  let ?d = "empty_db\<lparr>appointments := [?r]\<rparr>"
  have mem: "?r \<in> set (appointments ?d)"
    by simp
  have fresh: "\<not> violates_unique ap_id (appointments ?d) ?a"
    by (simp add: violates_unique_def example_appointment_def)
  show ?thesis
    by (rule slot_occupied_whatever_status [of ?r ?d ?a 200, THEN conjunct1, THEN mp])
       (intro conjI mem fresh; simp add: example_appointment_def)
qed

text \<open>
  C5. Deleting a doctor keeps every lab result, in place and with its key: a result that
  referred to the doctor has its doctor column set to NULL and every other field as it
  was, any other result is untouched. Deleting a patient removes exactly the lab results
  that refer to the patient.
\<close>

theorem lab_result_on_delete:
  "lab_results (delete_doctor d k)
     = map (\<lambda>x. if lr_doctor x = Some k then x\<lparr>lr_doctor := None\<rparr> else x) (lab_results d)
   \<and> map lr_id (lab_results (delete_doctor d k)) = map lr_id (lab_results d)
   \<and> (r \<in> set (lab_results d) \<and> lr_doctor r = Some k
        \<longrightarrow> r\<lparr>lr_doctor := None\<rparr> \<in> set (lab_results (delete_doctor d k)))
   \<and> (r \<in> set (lab_results d) \<and> lr_doctor r \<noteq> Some k
        \<longrightarrow> r \<in> set (lab_results (delete_doctor d k)))
   \<and> lab_results (delete_patient d k) = filter (\<lambda>x. lr_patient x \<noteq> Some k) (lab_results d)
   \<and> (lr_patient r = Some k \<longrightarrow> r \<notin> set (lab_results (delete_patient d k)))
   \<and> (r \<in> set (lab_results d) \<and> lr_patient r \<noteq> Some k
        \<longrightarrow> r \<in> set (lab_results (delete_patient d k)))"
proof -
  have dd: "lab_results (delete_doctor d k)
     = map (\<lambda>x. if lr_doctor x = Some k then x\<lparr>lr_doctor := None\<rparr> else x) (lab_results d)"
    by (simp add: delete_doctor_def lab_result_doctor_on_delete_def)
  have dp: "lab_results (delete_patient d k)
     = filter (\<lambda>x. lr_patient x \<noteq> Some k) (lab_results d)"
    by (simp add: delete_patient_def lab_result_patient_on_delete_def)
  have ids: "map lr_id (lab_results (delete_doctor d k)) = map lr_id (lab_results d)"
    unfolding dd by (induction "lab_results d") auto
  have nulled: "r \<in> set (lab_results d) \<and> lr_doctor r = Some k
        \<longrightarrow> r\<lparr>lr_doctor := None\<rparr> \<in> set (lab_results (delete_doctor d k))"
    unfolding dd by (auto simp add: image_iff intro!: bexI [of _ r])
  have kept: "r \<in> set (lab_results d) \<and> lr_doctor r \<noteq> Some k
        \<longrightarrow> r \<in> set (lab_results (delete_doctor d k))"
    unfolding dd by (auto simp add: image_iff intro!: bexI [of _ r])
  from dd dp ids nulled kept show ?thesis
    by simp
qed

theorem lab_result_on_delete_witness:
  "lab_results (delete_doctor (empty_db\<lparr>lab_results := [example_lab_result 1 10 (Some 20)]\<rparr>) (UUID 20))
     = [example_lab_result 1 10 None]
   \<and> lab_results (delete_patient (empty_db\<lparr>lab_results := [example_lab_result 1 10 (Some 20)]\<rparr>) (UUID 10))
     = []"
  using lab_result_on_delete [of "empty_db\<lparr>lab_results := [example_lab_result 1 10 (Some 20)]\<rparr>" "UUID 20"]
    lab_result_on_delete [of "empty_db\<lparr>lab_results := [example_lab_result 1 10 (Some 20)]\<rparr>" "UUID 10"]
  by (simp add: example_lab_result_def)

text \<open>
  C9. Deleting a doctor removes exactly the appointments that refer to the doctor, while
  the diagnosis histories, diagnostics and lab results are kept with the doctor column
  set to NULL. The doctor of an appointment is required: an insert without one is
  refused, and no stored appointment ever has a NULL doctor (the empty database has
  none, and inserts and both deletions preserve that).
\<close>

theorem appointment_doctor_cascade:
  "appointments (delete_doctor d k) = filter (\<lambda>x. ap_doctor x \<noteq> Some k) (appointments d)
   \<and> (ap_doctor r = Some k \<longrightarrow> r \<notin> set (appointments (delete_doctor d k)))
   \<and> (r \<in> set (appointments d) \<and> ap_doctor r \<noteq> Some k
        \<longrightarrow> r \<in> set (appointments (delete_doctor d k)))
   \<and> diagnosis_histories (delete_doctor d k)
        = map (\<lambda>x. if dh_doctor x = Some k then x\<lparr>dh_doctor := None\<rparr> else x) (diagnosis_histories d)
   \<and> diagnostics (delete_doctor d k)
        = map (\<lambda>x. if dl_doctor x = Some k then x\<lparr>dl_doctor := None\<rparr> else x) (diagnostics d)
   \<and> lab_results (delete_doctor d k)
        = map (\<lambda>x. if lr_doctor x = Some k then x\<lparr>lr_doctor := None\<rparr> else x) (lab_results d)
   \<and> (ap_patient a \<noteq> None \<and> ap_doctor a = None
        \<longrightarrow> insert_appointment now d a = Inl (IntegrityError ''doctor_id''))
   \<and> doctor_required empty_db
   \<and> (doctor_required d \<and> insert_appointment now d a = Inr d' \<longrightarrow> doctor_required d')
   \<and> (doctor_required d
        \<longrightarrow> doctor_required (delete_doctor d k) \<and> doctor_required (delete_patient d k))"
  by (auto simp add: delete_doctor_def delete_patient_def insert_appointment_def
        appointment_doctor_on_delete_def appointment_patient_on_delete_def
        diagnosis_history_doctor_on_delete_def diagnostic_list_doctor_on_delete_def
        lab_result_doctor_on_delete_def doctor_required_def empty_db_def list_all_iff
        split: if_splits)

theorem appointment_doctor_cascade_witness:
  "appointments (delete_doctor
       (empty_db\<lparr>appointments := [example_appointment 1 10 20 ''scheduled'',
                                  example_appointment 2 10 21 ''scheduled''],
                 lab_results := [example_lab_result 1 10 (Some 20)]\<rparr>) (UUID 20))
     = [example_appointment 2 10 21 ''scheduled'']
   \<and> lab_results (delete_doctor
       (empty_db\<lparr>appointments := [example_appointment 1 10 20 ''scheduled'',
                                  example_appointment 2 10 21 ''scheduled''],
                 lab_results := [example_lab_result 1 10 (Some 20)]\<rparr>) (UUID 20))
     = [example_lab_result 1 10 None]
   \<and> insert_appointment 100
       (empty_db\<lparr>appointments := [example_appointment 1 10 20 ''scheduled'',
                                  example_appointment 2 10 21 ''scheduled''],
                 lab_results := [example_lab_result 1 10 (Some 20)]\<rparr>)
       ((example_appointment 3 10 20 ''scheduled'')\<lparr>ap_doctor := None\<rparr>)
     = Inl (IntegrityError ''doctor_id'')"
proof -
  let ?d = "empty_db\<lparr>appointments := [example_appointment 1 10 20 ''scheduled'',
                                  example_appointment 2 10 21 ''scheduled''],
                 lab_results := [example_lab_result 1 10 (Some 20)]\<rparr>"
  let ?a = "(example_appointment 3 10 20 ''scheduled'')\<lparr>ap_doctor := None\<rparr>"
  note inst = appointment_doctor_cascade [of ?d "UUID 20" undefined ?a 100 empty_db]
  have "appointments (delete_doctor ?d (UUID 20))
          = filter (\<lambda>x. ap_doctor x \<noteq> Some (UUID 20)) (appointments ?d)"
    by (rule inst [THEN conjunct1])
  also have "\<dots> = [example_appointment 2 10 21 ''scheduled'']"
    by (simp add: example_appointment_def)
  finally have first: "appointments (delete_doctor ?d (UUID 20))
          = [example_appointment 2 10 21 ''scheduled'']" .
  have "lab_results (delete_doctor ?d (UUID 20))
          = map (\<lambda>x. if lr_doctor x = Some (UUID 20) then x\<lparr>lr_doctor := None\<rparr> else x)
              (lab_results ?d)"
    by (rule inst [THEN conjunct2, THEN conjunct2, THEN conjunct2, THEN conjunct2,
            THEN conjunct2, THEN conjunct1])
  also have "\<dots> = [example_lab_result 1 10 None]"
    by (simp add: example_lab_result_def)
  finally have second: "lab_results (delete_doctor ?d (UUID 20)) = [example_lab_result 1 10 None]" .
  have third: "insert_appointment 100 ?d ?a = Inl (IntegrityError ''doctor_id'')"
    by (rule inst [THEN conjunct2, THEN conjunct2, THEN conjunct2, THEN conjunct2,
            THEN conjunct2, THEN conjunct2, THEN conjunct1, THEN mp])
       (simp add: example_appointment_def)
  from first second third show ?thesis by blast
qed

subsection \<open>Validation of the vital signs\<close>

lemma clean_min_max:
  "clean lt [MinValueValidator lo, MaxValueValidator hi] v = Inr v \<longleftrightarrow> \<not> lt v lo \<and> \<not> lt hi v"
  by (simp add: clean_def run_validators_def)

lemma clean_below:
  "lt v lo \<Longrightarrow> \<not> lt hi v \<Longrightarrow>
   clean lt [MinValueValidator lo, MaxValueValidator hi] v = Inl (ValidationError [''min_value''])"
  by (simp add: clean_def run_validators_def)

lemma clean_above:
  "\<not> lt v lo \<Longrightarrow> lt hi v \<Longrightarrow>
   clean lt [MinValueValidator lo, MaxValueValidator hi] v = Inl (ValidationError [''max_value''])"
  by (simp add: clean_def run_validators_def)

lemma clean_cases:
  "clean lt vs v = Inr v \<or> (\<exists>e es. clean lt vs v = Inl (ValidationError (e # es)))"
  by (cases "run_validators lt vs v") (simp_all add: clean_def)

lemmas vital_validators_defs =
  blood_pressure_systolic_value_validators_def blood_pressure_diastolic_value_validators_def
  heart_rate_value_validators_def respiratory_rate_value_validators_def
  temperature_value_validators_def

lemma row_checks_vitals:
  "row_checks r \<Longrightarrow> 0 \<le> s \<and> fits_integer s \<Longrightarrow> 0 \<le> di \<and> fits_integer di \<Longrightarrow>
   0 \<le> h \<and> fits_integer h \<Longrightarrow> 0 \<le> rr \<and> fits_integer rr \<Longrightarrow> t \<noteq> NaN \<Longrightarrow>
   row_checks (r\<lparr>blood_pressure_systolic_value := s, blood_pressure_diastolic_value := di,
                 heart_rate_value := h, respiratory_rate_value := rr, temperature_value := t\<rparr>)"
  by (simp add: row_checks_def positive_integer_columns_def)

lemma insert_diagnosis_history_vitals:
  assumes "insert_diagnosis_history now d r = Inr d'"
    and "0 \<le> s \<and> fits_integer s" and "0 \<le> di \<and> fits_integer di"
    and "0 \<le> h \<and> fits_integer h" and "0 \<le> rr \<and> fits_integer rr" and "t \<noteq> NaN"
  shows "insert_diagnosis_history now d
           (r\<lparr>blood_pressure_systolic_value := s, blood_pressure_diastolic_value := di,
              heart_rate_value := h, respiratory_rate_value := rr, temperature_value := t\<rparr>)
         = Inr (d\<lparr>diagnosis_histories := diagnosis_histories d
                 @ [r\<lparr>blood_pressure_systolic_value := s, blood_pressure_diastolic_value := di,
                      heart_rate_value := h, respiratory_rate_value := rr,
                      temperature_value := t, dh_created_at := now, dh_updated_at := now\<rparr>]\<rparr>)"
proof -
  let ?r = "r\<lparr>blood_pressure_systolic_value := s, blood_pressure_diastolic_value := di,
              heart_rate_value := h, respiratory_rate_value := rr, temperature_value := t\<rparr>"
  from assms(1) have ok: "row_checks r"
    and u: "\<not> violates_unique unique_patient_diagnosis_history (diagnosis_histories d) r"
    and k: "\<not> violates_unique dh_id (diagnosis_histories d) r"
    and p: "references pt_id (patients d) (dh_patient r)"
    and q: "references dr_id (doctors d) (dh_doctor r)"
    by (simp_all add: insert_diagnosis_history_Inr_iff)
  have ok': "row_checks ?r"
    using ok assms(2-6) by (rule row_checks_vitals)
  have u': "\<not> violates_unique unique_patient_diagnosis_history (diagnosis_histories d) ?r"
    using u by (simp add: violates_unique_def unique_patient_diagnosis_history_def)
  have k': "\<not> violates_unique dh_id (diagnosis_histories d) ?r"
    using k by (simp add: violates_unique_def)
  show ?thesis
    unfolding insert_diagnosis_history_Inr_iff using ok' u' k' p q by simp
qed

text \<open>
  C4. Validating a numeric vital-sign field accepts exactly the values within the
  inclusive bounds of its validators and raises a validation error for every other
  value: systolic pressure 50 to 250 (49 and 251 are rejected, 50 and 250 accepted),
  diastolic pressure 30 to 150, heart rate 30 to 220, respiratory rate 5 to 60, and
  temperature 95.0 to 108.0 for every float that is a number or an infinity, while NaN
  passes both comparisons. Saving does not validate: a record that the store accepts is
  accepted with any other vital signs that fit the columns (non-negative integers of 64
  bits, a temperature that is not NaN), within the bounds or not.
\<close>

theorem vital_sign_bounds:
  "(insert_diagnosis_history now d r = Inr d'
      \<and> (0 \<le> s \<and> fits_integer s) \<and> (0 \<le> di \<and> fits_integer di)
      \<and> (0 \<le> h \<and> fits_integer h) \<and> (0 \<le> rr \<and> fits_integer rr) \<and> t \<noteq> NaN
    \<longrightarrow> insert_diagnosis_history now d
           (r\<lparr>blood_pressure_systolic_value := s, blood_pressure_diastolic_value := di,
              heart_rate_value := h, respiratory_rate_value := rr, temperature_value := t\<rparr>)
         = Inr (d\<lparr>diagnosis_histories := diagnosis_histories d
                 @ [r\<lparr>blood_pressure_systolic_value := s, blood_pressure_diastolic_value := di,
                      heart_rate_value := h, respiratory_rate_value := rr,
                      temperature_value := t, dh_created_at := now, dh_updated_at := now\<rparr>]\<rparr>))
   \<and> (clean (<) blood_pressure_systolic_value_validators v = Inr v \<longleftrightarrow> 50 \<le> v \<and> v \<le> 250)
   \<and> clean (<) blood_pressure_systolic_value_validators 49 = Inl (ValidationError [''min_value''])
   \<and> clean (<) blood_pressure_systolic_value_validators 50 = Inr 50
   \<and> clean (<) blood_pressure_systolic_value_validators 250 = Inr 250
   \<and> clean (<) blood_pressure_systolic_value_validators 251 = Inl (ValidationError [''max_value''])
   \<and> (clean (<) blood_pressure_diastolic_value_validators v = Inr v \<longleftrightarrow> 30 \<le> v \<and> v \<le> 150)
   \<and> (clean (<) heart_rate_value_validators v = Inr v \<longleftrightarrow> 30 \<le> v \<and> v \<le> 220)
   \<and> (clean (<) respiratory_rate_value_validators v = Inr v \<longleftrightarrow> 5 \<le> v \<and> v \<le> 60)
   \<and> (clean float_lt temperature_value_validators (Float x) = Inr (Float x)
        \<longleftrightarrow> 95 \<le> x \<and> x \<le> 108)
   \<and> clean float_lt temperature_value_validators PosInf = Inl (ValidationError [''max_value''])
   \<and> clean float_lt temperature_value_validators NegInf = Inl (ValidationError [''min_value''])
   \<and> clean float_lt temperature_value_validators NaN = Inr NaN
   \<and> (clean lt vs w = Inr w \<or> (\<exists>e es. clean lt vs w = Inl (ValidationError (e # es))))"
proof (intro conjI impI)
  assume "insert_diagnosis_history now d r = Inr d'
      \<and> (0 \<le> s \<and> fits_integer s) \<and> (0 \<le> di \<and> fits_integer di)
      \<and> (0 \<le> h \<and> fits_integer h) \<and> (0 \<le> rr \<and> fits_integer rr) \<and> t \<noteq> NaN"
  then show "insert_diagnosis_history now d
           (r\<lparr>blood_pressure_systolic_value := s, blood_pressure_diastolic_value := di,
              heart_rate_value := h, respiratory_rate_value := rr, temperature_value := t\<rparr>)
         = Inr (d\<lparr>diagnosis_histories := diagnosis_histories d
                 @ [r\<lparr>blood_pressure_systolic_value := s, blood_pressure_diastolic_value := di,
                      heart_rate_value := h, respiratory_rate_value := rr,
                      temperature_value := t, dh_created_at := now, dh_updated_at := now\<rparr>]\<rparr>)"
    by (intro insert_diagnosis_history_vitals) blast+
next
  show "clean lt vs w = Inr w \<or> (\<exists>e es. clean lt vs w = Inl (ValidationError (e # es)))"
    by (rule clean_cases)
next
  show "clean (<) blood_pressure_systolic_value_validators v = Inr v \<longleftrightarrow> 50 \<le> v \<and> v \<le> 250"
    unfolding vital_validators_defs clean_min_max by auto
next
  show "clean (<) blood_pressure_diastolic_value_validators v = Inr v \<longleftrightarrow> 30 \<le> v \<and> v \<le> 150"
    unfolding vital_validators_defs clean_min_max by auto
next
  show "clean (<) heart_rate_value_validators v = Inr v \<longleftrightarrow> 30 \<le> v \<and> v \<le> 220"
    unfolding vital_validators_defs clean_min_max by auto
next
  show "clean (<) respiratory_rate_value_validators v = Inr v \<longleftrightarrow> 5 \<le> v \<and> v \<le> 60"
    unfolding vital_validators_defs clean_min_max by auto
next
  show "clean float_lt temperature_value_validators (Float x) = Inr (Float x)
        \<longleftrightarrow> 95 \<le> x \<and> x \<le> 108"
    unfolding vital_validators_defs clean_min_max by auto
qed (simp_all add: vital_validators_defs clean_def run_validators_def)

theorem vital_sign_bounds_counterexample:
  "insert_diagnosis_history 100 clinic_db
     ((example_diagnosis_history 1 10 ''March'' 2024)\<lparr>blood_pressure_systolic_value := 251\<rparr>)
   = Inr (clinic_db\<lparr>diagnosis_histories :=
       [(example_diagnosis_history 1 10 ''March'' 2024)
          \<lparr>blood_pressure_systolic_value := 251, dh_created_at := 100, dh_updated_at := 100\<rparr>]\<rparr>)
   \<and> clean (<) blood_pressure_systolic_value_validators 251 = Inl (ValidationError [''max_value''])
   \<and> clean float_lt temperature_value_validators NaN = Inr NaN"
  by (simp add: insert_diagnosis_history_def example_diagnosis_history_def
        positive_integer_columns_def fits_integer_def references_def clinic_db_def empty_db_def
        example_patient_def violates_unique_Nil vital_validators_defs clean_def
        run_validators_def)

theorem vital_sign_bounds_witness:
  "insert_diagnosis_history 100 clinic_db (example_diagnosis_history 1 10 ''March'' 2024)
     = Inr (clinic_db\<lparr>diagnosis_histories :=
          [(example_diagnosis_history 1 10 ''March'' 2024)\<lparr>dh_created_at := 100, dh_updated_at := 100\<rparr>]\<rparr>)
   \<and> insert_diagnosis_history 100 clinic_db
       ((example_diagnosis_history 1 10 ''March'' 2024)
          \<lparr>blood_pressure_systolic_value := 251, blood_pressure_diastolic_value := 80,
           heart_rate_value := 70, respiratory_rate_value := 16, temperature_value := Float 98.6\<rparr>)
     = Inr (clinic_db\<lparr>diagnosis_histories :=
          [(example_diagnosis_history 1 10 ''March'' 2024)
             \<lparr>blood_pressure_systolic_value := 251, blood_pressure_diastolic_value := 80,
              heart_rate_value := 70, respiratory_rate_value := 16,
              temperature_value := Float 98.6, dh_created_at := 100, dh_updated_at := 100\<rparr>]\<rparr>)"
proof -
  let ?r = "example_diagnosis_history 1 10 ''March'' 2024"
  let ?d1 = "clinic_db\<lparr>diagnosis_histories := [?r\<lparr>dh_created_at := 100, dh_updated_at := 100\<rparr>]\<rparr>"
  have first: "insert_diagnosis_history 100 clinic_db ?r = Inr ?d1"
    by (simp add: insert_diagnosis_history_def example_diagnosis_history_def
          positive_integer_columns_def fits_integer_def references_def clinic_db_def
          empty_db_def example_patient_def violates_unique_Nil)
  have prem: "insert_diagnosis_history 100 clinic_db ?r = Inr ?d1
      \<and> (0 \<le> (251::int) \<and> fits_integer 251) \<and> (0 \<le> (80::int) \<and> fits_integer 80)
      \<and> (0 \<le> (70::int) \<and> fits_integer 70) \<and> (0 \<le> (16::int) \<and> fits_integer 16)
      \<and> Float 98.6 \<noteq> NaN"
    using first by (simp add: fits_integer_def)
  have "insert_diagnosis_history 100 clinic_db
       (?r\<lparr>blood_pressure_systolic_value := 251, blood_pressure_diastolic_value := 80,
           heart_rate_value := 70, respiratory_rate_value := 16, temperature_value := Float 98.6\<rparr>)
     = Inr (clinic_db\<lparr>diagnosis_histories := diagnosis_histories clinic_db @
          [?r\<lparr>blood_pressure_systolic_value := 251, blood_pressure_diastolic_value := 80,
              heart_rate_value := 70, respiratory_rate_value := 16,
              temperature_value := Float 98.6, dh_created_at := 100, dh_updated_at := 100\<rparr>]\<rparr>)"
    by (rule vital_sign_bounds [THEN conjunct1, THEN mp, OF prem])
  then have second: "insert_diagnosis_history 100 clinic_db
       (?r\<lparr>blood_pressure_systolic_value := 251, blood_pressure_diastolic_value := 80,
           heart_rate_value := 70, respiratory_rate_value := 16, temperature_value := Float 98.6\<rparr>)
     = Inr (clinic_db\<lparr>diagnosis_histories :=
          [?r\<lparr>blood_pressure_systolic_value := 251, blood_pressure_diastolic_value := 80,
              heart_rate_value := 70, respiratory_rate_value := 16,
              temperature_value := Float 98.6, dh_created_at := 100, dh_updated_at := 100\<rparr>]\<rparr>)"
    by (simp add: clinic_db_def empty_db_def)
  from first second show ?thesis by blast
qed

subsection \<open>Account creation\<close>

lemma lower_domain_example: "lower_domain '' Ann@Example.COM '' = ''Ann@example.com''"
  by code_simp

lemma lower_domain_example2: "lower_domain ''Ann@EXAMPLE.com'' = ''Ann@example.com''"
  by code_simp

lemma save_user_Inr:
  "save_user now d u = (Inr u', d') \<Longrightarrow>
     \<not> violates_unique email (users d) u
     \<and> u' = u\<lparr>user_id := Suc (user_seq d), created_at := now, updated_at := now\<rparr>
     \<and> d' = d\<lparr>users := users d @ [u'], user_seq := Suc (user_seq d)\<rparr>"
  by (auto simp add: save_user_def Let_def split: if_splits)

lemma save_user_Inl:
  "save_user now d u = (Inl err, d') \<Longrightarrow> d' = d \<and> err = IntegrityError ''email''"
  by (auto simp add: save_user_def Let_def split: if_splits)

lemma save_user_taken:
  "x \<in> set (users d) \<Longrightarrow> email x = email u \<Longrightarrow>
     save_user now d u = (Inl (IntegrityError ''email''), d)"
  by (auto simp add: save_user_def violates_unique_def)

lemma create_user_Some:
  "e0 \<noteq> [] \<Longrightarrow>
   create_user ne mp now d (Some e0) pw extra
     = save_user now d ((model (ne e0) extra)\<lparr>password := mp pw\<rparr>)"
  by (simp add: create_user_def Let_def)

lemma create_user_missing:
  "e = None \<or> e = Some [] \<Longrightarrow>
   create_user ne mp now d e pw extra = (Inl (ValueError ''Users must have an email address''), d)"
  by (auto simp add: create_user_def)

lemma create_user_Inr:
  "create_user ne mp now d e pw extra = (Inr u, d') \<Longrightarrow>
     \<exists>e0. e = Some e0 \<and> e0 \<noteq> []
       \<and> u = (model (ne e0) extra)\<lparr>password := mp pw, user_id := Suc (user_seq d),
                created_at := now, updated_at := now\<rparr>
       \<and> d' = d\<lparr>users := users d @ [u], user_seq := Suc (user_seq d)\<rparr>
       \<and> \<not> violates_unique email (users d) u"
proof -
  assume h: "create_user ne mp now d e pw extra = (Inr u, d')"
  then obtain e0 where e: "e = Some e0" "e0 \<noteq> []"
    by (cases e) (auto simp add: create_user_def split: if_splits)
  with h have "save_user now d ((model (ne e0) extra)\<lparr>password := mp pw\<rparr>) = (Inr u, d')"
    by (simp add: create_user_Some)
  from save_user_Inr [OF this] e show ?thesis
    by (auto simp add: violates_unique_def)
qed

lemma create_user_Inl:
  "create_user ne mp now d e pw extra = (Inl err, d') \<Longrightarrow> d' = d"
  by (cases e) (auto simp add: create_user_def Let_def split: if_splits dest: save_user_Inl)

text \<open>
  C6. Creating an account without an email (\<^verbatim>\<open>None\<close> or the empty string) fails
  with the error \<^verbatim>\<open>create_user\<close> raises for it. Creating an account whose
  normalized email equals that of an account created before, or the stored email of any
  existing account, fails with the integrity error of the unique email column. Whenever
  the creation fails, the database is the one before the call: no account is stored.
\<close>

theorem create_user_rejects:
  "(e = None \<or> e = Some [] \<longrightarrow>
      create_user ne mp now d e pw extra
        = (Inl (ValueError ''Users must have an email address''), d))
   \<and> (create_user ne mp now d (Some e1) pw1 extra1 = (Inr u1, d1) \<and> e2 \<noteq> [] \<and> ne e2 = ne e1 \<longrightarrow>
        create_user ne mp now' d1 (Some e2) pw2 extra2 = (Inl (IntegrityError ''email''), d1))
   \<and> (x \<in> set (users d) \<and> e2 \<noteq> [] \<and> ne e2 = email x \<longrightarrow>
        create_user ne mp now d (Some e2) pw2 extra2 = (Inl (IntegrityError ''email''), d))
   \<and> (create_user ne mp now d e pw extra = (Inl err, d') \<longrightarrow> d' = d)"
proof (intro conjI impI)
  assume "e = None \<or> e = Some []"
  then show "create_user ne mp now d e pw extra
        = (Inl (ValueError ''Users must have an email address''), d)"
    by (rule create_user_missing)
next
  assume h: "create_user ne mp now d (Some e1) pw1 extra1 = (Inr u1, d1) \<and> e2 \<noteq> [] \<and> ne e2 = ne e1"
  from create_user_Inr [of ne mp now d "Some e1" pw1 extra1 u1 d1] h
  have u1: "u1 \<in> set (users d1)" and em: "email u1 = ne e1"
    by (auto simp add: model_def)
  have "save_user now' d1 ((model (ne e2) extra2)\<lparr>password := mp pw2\<rparr>)
          = (Inl (IntegrityError ''email''), d1)"
    using u1 by (rule save_user_taken) (simp add: em h model_def)
  with h show "create_user ne mp now' d1 (Some e2) pw2 extra2 = (Inl (IntegrityError ''email''), d1)"
    by (simp add: create_user_Some)
next
  assume h: "x \<in> set (users d) \<and> e2 \<noteq> [] \<and> ne e2 = email x"
  then have "save_user now d ((model (ne e2) extra2)\<lparr>password := mp pw2\<rparr>)
          = (Inl (IntegrityError ''email''), d)"
    by (intro save_user_taken [of x]) (simp_all add: model_def)
  with h show "create_user ne mp now d (Some e2) pw2 extra2 = (Inl (IntegrityError ''email''), d)"
    by (simp add: create_user_Some)
next
  assume "create_user ne mp now d e pw extra = (Inl err, d')"
  then show "d' = d" by (rule create_user_Inl)
qed

lemma create_example_user:
  "create_user lower_domain toy_hash 100 empty_db (Some '' Ann@Example.COM '') (Some ''secret'')
     no_extra_fields = (Inr example_user, example_user_db)"
  by (simp add: create_user_Some lower_domain_example save_user_def violates_unique_def
        Let_def empty_db_def model_def no_extra_fields_def get_or_def toy_hash_def example_user_def
        example_user_db_def)

theorem create_user_rejects_witness:
  "create_user lower_domain toy_hash 100 empty_db None (Some ''secret'') no_extra_fields
     = (Inl (ValueError ''Users must have an email address''), empty_db)
   \<and> create_user lower_domain toy_hash 100 empty_db (Some '' Ann@Example.COM '') (Some ''secret'')
        no_extra_fields = (Inr example_user, example_user_db)
   \<and> create_user lower_domain toy_hash 200 example_user_db (Some ''Ann@EXAMPLE.com'') None
        no_extra_fields = (Inl (IntegrityError ''email''), example_user_db)"
proof -
  have first: "create_user lower_domain toy_hash 100 empty_db None (Some ''secret'') no_extra_fields
     = (Inl (ValueError ''Users must have an email address''), empty_db)"
    by (rule create_user_rejects [THEN conjunct1, THEN mp]) simp
  have same: "lower_domain ''Ann@EXAMPLE.com'' = lower_domain '' Ann@Example.COM ''"
    by (simp only: lower_domain_example lower_domain_example2)
  have third: "create_user lower_domain toy_hash 200 example_user_db (Some ''Ann@EXAMPLE.com'') None
        no_extra_fields = (Inl (IntegrityError ''email''), example_user_db)"
  proof -
    have prem: "create_user lower_domain toy_hash 100 empty_db (Some '' Ann@Example.COM '')
          (Some ''secret'') no_extra_fields = (Inr example_user, example_user_db)
        \<and> ''Ann@EXAMPLE.com'' \<noteq> []
        \<and> lower_domain ''Ann@EXAMPLE.com'' = lower_domain '' Ann@Example.COM ''"
      using create_example_user same by simp
    show ?thesis
      by (rule create_user_rejects [THEN conjunct2, THEN conjunct1, THEN mp, OF prem])
  qed
  from first create_example_user third show ?thesis by blast
qed

lemma create_superuser_eq:
  "create_superuser ne mp now d e pw extra
     = create_user ne mp now d e pw
         (extra\<lparr>ef_is_staff := Some (get_or (ef_is_staff extra) True),
                ef_is_superuser := Some (get_or (ef_is_superuser extra) True),
                ef_is_active := Some (get_or (ef_is_active extra) True),
                ef_user_type := Some (get_or (ef_user_type extra) ''admin'')\<rparr>)"
  by (simp add: create_superuser_def setdefault_def get_or_def Let_def split: option.splits)

lemma create_user_fails_whatever_extra:
  "create_user ne mp now d e pw extra = (Inl err, d') \<longleftrightarrow>
   create_user ne mp now d e pw extra' = (Inl err, d')"
  by (cases e) (auto simp add: create_user_def Let_def save_user_def violates_unique_def model_def)

text \<open>
  C7. \<^verbatim>\<open>create_superuser\<close> is \<^verbatim>\<open>create_user\<close> on the extra fields in which
  \<^verbatim>\<open>is_staff\<close>, \<^verbatim>\<open>is_superuser\<close> and \<^verbatim>\<open>is_active\<close> default to true and
  \<^verbatim>\<open>user_type\<close> to admin: the stored account has the caller's value for each of
  the four where the caller gave one and the default otherwise, and is otherwise the
  account that plain creation stores; it fails exactly when plain creation fails, with
  the same error; and with all four supplied the two functions agree.
\<close>

theorem create_superuser_defaults:
  "create_superuser ne mp now d e pw extra
     = create_user ne mp now d e pw
         (extra\<lparr>ef_is_staff := Some (get_or (ef_is_staff extra) True),
                ef_is_superuser := Some (get_or (ef_is_superuser extra) True),
                ef_is_active := Some (get_or (ef_is_active extra) True),
                ef_user_type := Some (get_or (ef_user_type extra) ''admin'')\<rparr>)
   \<and> (create_superuser ne mp now d e pw extra = (Inr u, d') \<longrightarrow>
        is_staff u = (case ef_is_staff extra of None \<Rightarrow> True | Some v \<Rightarrow> v)
        \<and> is_superuser u = (case ef_is_superuser extra of None \<Rightarrow> True | Some v \<Rightarrow> v)
        \<and> is_active u = (case ef_is_active extra of None \<Rightarrow> True | Some v \<Rightarrow> v)
        \<and> user_type u = (case ef_user_type extra of None \<Rightarrow> ''admin'' | Some v \<Rightarrow> v)
        \<and> (\<exists>u0 d0. create_user ne mp now d e pw extra = (Inr u0, d0)
              \<and> u = u0\<lparr>is_staff := is_staff u, is_superuser := is_superuser u,
                        is_active := is_active u, user_type := user_type u\<rparr>))
   \<and> (create_superuser ne mp now d e pw extra = (Inl err, d') \<longleftrightarrow>
        create_user ne mp now d e pw extra = (Inl err, d'))
   \<and> (ef_is_staff extra \<noteq> None \<and> ef_is_superuser extra \<noteq> None \<and> ef_is_active extra \<noteq> None
        \<and> ef_user_type extra \<noteq> None \<longrightarrow>
        create_superuser ne mp now d e pw extra = create_user ne mp now d e pw extra)"
proof (intro conjI impI)
  show "create_superuser ne mp now d e pw extra
     = create_user ne mp now d e pw
         (extra\<lparr>ef_is_staff := Some (get_or (ef_is_staff extra) True),
                ef_is_superuser := Some (get_or (ef_is_superuser extra) True),
                ef_is_active := Some (get_or (ef_is_active extra) True),
                ef_user_type := Some (get_or (ef_user_type extra) ''admin'')\<rparr>)"
    by (rule create_superuser_eq)
next
  show "create_superuser ne mp now d e pw extra = (Inl err, d') \<longleftrightarrow>
        create_user ne mp now d e pw extra = (Inl err, d')"
    unfolding create_superuser_eq by (rule create_user_fails_whatever_extra)
next
  assume "ef_is_staff extra \<noteq> None \<and> ef_is_superuser extra \<noteq> None \<and> ef_is_active extra \<noteq> None
        \<and> ef_user_type extra \<noteq> None"
  then show "create_superuser ne mp now d e pw extra = create_user ne mp now d e pw extra"
    unfolding create_superuser_eq by (cases extra) (auto simp add: get_or_def)
next
  assume h: "create_superuser ne mp now d e pw extra = (Inr u, d')"
  let ?x = "extra\<lparr>ef_is_staff := Some (get_or (ef_is_staff extra) True),
                ef_is_superuser := Some (get_or (ef_is_superuser extra) True),
                ef_is_active := Some (get_or (ef_is_active extra) True),
                ef_user_type := Some (get_or (ef_user_type extra) ''admin'')\<rparr>"
  from h have "create_user ne mp now d e pw ?x = (Inr u, d')"
    by (simp only: create_superuser_eq)
  from create_user_Inr [OF this] obtain e0 where e: "e = Some e0" "e0 \<noteq> []"
    and u: "u = (model (ne e0) ?x)\<lparr>password := mp pw, user_id := Suc (user_seq d),
                created_at := now, updated_at := now\<rparr>"
    and fresh: "\<not> violates_unique email (users d) u"
    by blast
  from u show "is_staff u = (case ef_is_staff extra of None \<Rightarrow> True | Some v \<Rightarrow> v)"
    by (simp add: model_def get_or_def)
  from u show "is_superuser u = (case ef_is_superuser extra of None \<Rightarrow> True | Some v \<Rightarrow> v)"
    by (simp add: model_def get_or_def)
  from u show "is_active u = (case ef_is_active extra of None \<Rightarrow> True | Some v \<Rightarrow> v)"
    by (simp add: model_def get_or_def)
  from u show "user_type u = (case ef_user_type extra of None \<Rightarrow> ''admin'' | Some v \<Rightarrow> v)"
    by (simp add: model_def get_or_def)
  let ?u0 = "(model (ne e0) extra)\<lparr>password := mp pw, user_id := Suc (user_seq d),
                created_at := now, updated_at := now\<rparr>"
  have em: "email ?u0 = email u"
    using u by (simp add: model_def)
  with fresh have fresh0: "\<not> violates_unique email (users d) ?u0"
    by (simp add: violates_unique_def)
  have c0: "create_user ne mp now d e pw extra
              = (Inr ?u0, d\<lparr>users := users d @ [?u0], user_seq := Suc (user_seq d)\<rparr>)"
    using e fresh0 by (simp add: create_user_Some save_user_def violates_unique_def Let_def)
  have "u = ?u0\<lparr>is_staff := is_staff u, is_superuser := is_superuser u,
                        is_active := is_active u, user_type := user_type u\<rparr>"
    using u by (simp add: model_def)
  with c0 show "\<exists>u0 d0. create_user ne mp now d e pw extra = (Inr u0, d0)
              \<and> u = u0\<lparr>is_staff := is_staff u, is_superuser := is_superuser u,
                        is_active := is_active u, user_type := user_type u\<rparr>"
    by blast
qed

lemma create_example_admin:
  "create_superuser lower_domain toy_hash 100 empty_db (Some '' Ann@Example.COM '')
     (Some ''secret'') no_extra_fields
     = (Inr example_admin, empty_db\<lparr>users := [example_admin], user_seq := 1\<rparr>)"
  by (simp add: create_superuser_def setdefault_def create_user_Some lower_domain_example
        save_user_def violates_unique_def Let_def empty_db_def model_def no_extra_fields_def
        get_or_def toy_hash_def example_user_def example_admin_def)

lemma create_example_admin_not_staff:
  "create_superuser lower_domain toy_hash 100 empty_db (Some '' Ann@Example.COM '')
     (Some ''secret'') (no_extra_fields\<lparr>ef_is_staff := Some False\<rparr>)
     = (Inr (example_admin\<lparr>is_staff := False\<rparr>),
        empty_db\<lparr>users := [example_admin\<lparr>is_staff := False\<rparr>], user_seq := 1\<rparr>)"
  by (simp add: create_superuser_def setdefault_def create_user_Some lower_domain_example
        save_user_def violates_unique_def Let_def empty_db_def model_def no_extra_fields_def
        get_or_def toy_hash_def example_user_def example_admin_def)

theorem create_superuser_defaults_witness:
  "create_superuser lower_domain toy_hash 100 empty_db (Some '' Ann@Example.COM '')
     (Some ''secret'') no_extra_fields
     = (Inr example_admin, empty_db\<lparr>users := [example_admin], user_seq := 1\<rparr>)
   \<and> is_staff example_admin \<and> is_superuser example_admin \<and> is_active example_admin
   \<and> user_type example_admin = ''admin''
   \<and> create_superuser lower_domain toy_hash 100 empty_db (Some '' Ann@Example.COM '')
     (Some ''secret'') (no_extra_fields\<lparr>ef_is_staff := Some False\<rparr>)
     = (Inr (example_admin\<lparr>is_staff := False\<rparr>),
        empty_db\<lparr>users := [example_admin\<lparr>is_staff := False\<rparr>], user_seq := 1\<rparr>)
   \<and> \<not> is_staff (example_admin\<lparr>is_staff := False\<rparr>)
   \<and> is_superuser (example_admin\<lparr>is_staff := False\<rparr>)"
proof -
  note a = create_superuser_defaults [THEN conjunct2, THEN conjunct1, THEN mp,
      OF create_example_admin]
  note b = create_superuser_defaults [THEN conjunct2, THEN conjunct1, THEN mp,
      OF create_example_admin_not_staff]
  from a have "is_staff example_admin \<and> is_superuser example_admin \<and> is_active example_admin
      \<and> user_type example_admin = ''admin''"
    by (simp add: no_extra_fields_def)
  moreover from b have "\<not> is_staff (example_admin\<lparr>is_staff := False\<rparr>)
      \<and> is_superuser (example_admin\<lparr>is_staff := False\<rparr>)"
    by (simp add: no_extra_fields_def)
  ultimately show ?thesis
    using create_example_admin create_example_admin_not_staff by blast
qed

text \<open>
  C8. An account that \<^verbatim>\<open>create_user\<close> stores has the normalization of the supplied
  email as its email and the hasher's output for the supplied password as its password;
  whenever the hasher does not return its input, the stored password differs from the
  clear text. The password reaches the stored row through the hasher only: creating the
  account with another password changes nothing but the stored hash.
\<close>

theorem create_user_normalizes_and_hashes:
  "create_user ne mp now d e pw extra = (Inr u, d') \<longrightarrow>
     (\<exists>e0. e = Some e0 \<and> e0 \<noteq> [] \<and> email u = ne e0)
     \<and> password u = mp pw
     \<and> users d' = users d @ [u]
     \<and> (\<forall>p. pw = Some p \<and> mp (Some p) \<noteq> p \<longrightarrow> password u \<noteq> p)
     \<and> create_user ne mp now d e pw2 extra
         = (Inr (u\<lparr>password := mp pw2\<rparr>),
            d'\<lparr>users := users d @ [u\<lparr>password := mp pw2\<rparr>]\<rparr>)"
proof
  assume h: "create_user ne mp now d e pw extra = (Inr u, d')"
  from create_user_Inr [OF h] obtain e0 where e: "e = Some e0" "e0 \<noteq> []"
    and u: "u = (model (ne e0) extra)\<lparr>password := mp pw, user_id := Suc (user_seq d),
                created_at := now, updated_at := now\<rparr>"
    and d': "d' = d\<lparr>users := users d @ [u], user_seq := Suc (user_seq d)\<rparr>"
    and fresh: "\<not> violates_unique email (users d) u"
    by blast
  have em: "email u = ne e0"
    using u by (simp add: model_def)
  have pw: "password u = mp pw"
    using u by simp
  have us: "users d' = users d @ [u]"
    using d' by simp
  have fresh2: "\<not> violates_unique email (users d) ((model (ne e0) extra)\<lparr>password := mp pw2\<rparr>)"
    using fresh em by (simp add: violates_unique_def model_def)
  have other: "create_user ne mp now d e pw2 extra
         = (Inr (u\<lparr>password := mp pw2\<rparr>),
            d'\<lparr>users := users d @ [u\<lparr>password := mp pw2\<rparr>]\<rparr>)"
    using e fresh2 by (simp add: create_user_Some save_user_def Let_def u d')
  from e em pw us other
  show "(\<exists>e0. e = Some e0 \<and> e0 \<noteq> [] \<and> email u = ne e0)
     \<and> password u = mp pw
     \<and> users d' = users d @ [u]
     \<and> (\<forall>p. pw = Some p \<and> mp (Some p) \<noteq> p \<longrightarrow> password u \<noteq> p)
     \<and> create_user ne mp now d e pw2 extra
         = (Inr (u\<lparr>password := mp pw2\<rparr>),
            d'\<lparr>users := users d @ [u\<lparr>password := mp pw2\<rparr>]\<rparr>)"
    by auto
qed

theorem create_user_normalizes_and_hashes_witness:
  "create_user lower_domain toy_hash 100 empty_db (Some '' Ann@Example.COM '') (Some ''secret'')
     no_extra_fields = (Inr example_user, example_user_db)
   \<and> email example_user = ''Ann@example.com''
   \<and> password example_user = ''hash$secret''
   \<and> password example_user \<noteq> ''secret''
   \<and> users example_user_db = [example_user]"
proof -
  note a = create_user_normalizes_and_hashes [THEN mp, OF create_example_user]
  from a have "email example_user = ''Ann@example.com''"
    by (simp add: lower_domain_example)
  moreover from a have "password example_user = ''hash$secret''"
    by (simp add: toy_hash_def)
  moreover from a have "password example_user \<noteq> ''secret''"
    by (simp add: toy_hash_def)
  moreover from a have "users example_user_db = [example_user]"
    by (simp add: empty_db_def)
  ultimately show ?thesis
    using create_example_user by blast
qed

end
